theory Spec2Isabelle
  imports Complex_Main "HOL-Library.Log_Nat" "HOL-Library.Sublist" "HOL-Library.Word"
begin

section \<open>JavaScript numbers\<close>

text \<open>
  A JavaScript \<^verbatim>\<open>number\<close> is an IEEE 754 binary64 value: a finite value, given by the
  rational it denotes, one of the two infinities, or \<open>NaN\<close>. The sign of a zero is not
  represented: the program divides by the constant 100 only.
\<close>

datatype number = Num rat | PosInf | NegInf | NaN

definition pow2 :: "int \<Rightarrow> rat" where
  "pow2 e = (if 0 \<le> e then 2 ^ nat e else 1 / 2 ^ nat (- e))"

text \<open>\<open>ilog2 x\<close> is \<open>\<lfloor>log\<^sub>2 x\<rfloor>\<close> for \<open>x > 0\<close>, computed on integers.\<close>

definition ilog2 :: "rat \<Rightarrow> int" where
  "ilog2 x = (if 1 \<le> x then bitlen \<lfloor>x\<rfloor> - 1 else - bitlen (\<lceil>1 / x\<rceil> - 1))"

definition round_half_even :: "rat \<Rightarrow> int" where
  "round_half_even x =
     (let f = \<lfloor>x\<rfloor>; r = x - of_int f
      in if r < 1 / 2 then f else if 1 / 2 < r then f + 1 else if even f then f else f + 1)"

text \<open>
  \<open>rnd x\<close> is \<open>x\<close> rounded to 53 significant bits, a tie going to the even significand,
  with the exponent bounded below (subnormals under \<open>2\<^sup>-\<^sup>1\<^sup>0\<^sup>2\<^sup>2\<close>) and not above. \<open>fl x\<close> is
  the binary64 value of the exact result \<open>x\<close> of an operation: \<open>rnd x\<close>, or an infinity
  when \<open>rnd x\<close> overflows, that is reaches \<open>2\<^sup>1\<^sup>0\<^sup>2\<^sup>4\<close> in magnitude: its integer part then
  has 1025 bits or more.
\<close>

definition rnd :: "rat \<Rightarrow> rat" where
  "rnd x =
     (if x = 0 then 0
      else let a = \<bar>x\<bar>;
               e = max (ilog2 a - 52) (- 1074);
               m = round_half_even (a / pow2 e)
           in sgn x * of_int m * pow2 e)"

definition overflows :: "rat \<Rightarrow> bool" where
  "overflows y = (1025 \<le> bitlen \<lfloor>\<bar>y\<bar>\<rfloor>)"

definition fl :: "rat \<Rightarrow> number" where
  "fl x =
     (let y = rnd x
      in if overflows y then (if 0 < y then PosInf else NegInf) else Num y)"

fun js_neg :: "number \<Rightarrow> number" where
  "js_neg (Num a) = Num (- a)"
| "js_neg PosInf = NegInf"
| "js_neg NegInf = PosInf"
| "js_neg NaN = NaN"

fun js_add :: "number \<Rightarrow> number \<Rightarrow> number" where
  "js_add (Num a) (Num b) = fl (a + b)"
| "js_add NaN b = NaN"
| "js_add a NaN = NaN"
| "js_add PosInf NegInf = NaN"
| "js_add NegInf PosInf = NaN"
| "js_add PosInf b = PosInf"
| "js_add a PosInf = PosInf"
| "js_add NegInf b = NegInf"
| "js_add a NegInf = NegInf"

definition js_sub :: "number \<Rightarrow> number \<Rightarrow> number" where
  "js_sub a b = js_add a (js_neg b)"

fun js_mul :: "number \<Rightarrow> number \<Rightarrow> number" where
  "js_mul (Num a) (Num b) = fl (a * b)"
| "js_mul NaN b = NaN"
| "js_mul a NaN = NaN"
| "js_mul PosInf (Num b) = (if b = 0 then NaN else if 0 < b then PosInf else NegInf)"
| "js_mul NegInf (Num b) = (if b = 0 then NaN else if 0 < b then NegInf else PosInf)"
| "js_mul (Num a) PosInf = (if a = 0 then NaN else if 0 < a then PosInf else NegInf)"
| "js_mul (Num a) NegInf = (if a = 0 then NaN else if 0 < a then NegInf else PosInf)"
| "js_mul PosInf PosInf = PosInf"
| "js_mul NegInf NegInf = PosInf"
| "js_mul PosInf NegInf = NegInf"
| "js_mul NegInf PosInf = NegInf"

text \<open>Division; a divisor zero counts as \<open>+0\<close>. The program divides by 100 only.\<close>

fun js_div :: "number \<Rightarrow> number \<Rightarrow> number" where
  "js_div (Num a) (Num b) =
     (if b = 0 then (if a = 0 then NaN else if 0 < a then PosInf else NegInf)
      else fl (a / b))"
| "js_div NaN b = NaN"
| "js_div a NaN = NaN"
| "js_div (Num a) PosInf = Num 0"
| "js_div (Num a) NegInf = Num 0"
| "js_div PosInf (Num b) = (if 0 \<le> b then PosInf else NegInf)"
| "js_div NegInf (Num b) = (if 0 \<le> b then NegInf else PosInf)"
| "js_div PosInf b = NaN"
| "js_div NegInf b = NaN"

text \<open>
  The comparisons \<^verbatim>\<open><\<close> and \<^verbatim>\<open>>=\<close>: both are false as soon as one side is \<open>NaN\<close>, and
  otherwise each is the negation of the other.
\<close>

fun js_lt :: "number \<Rightarrow> number \<Rightarrow> bool" where
  "js_lt (Num a) (Num b) = (a < b)"
| "js_lt NaN b = False"
| "js_lt a NaN = False"
| "js_lt PosInf b = False"
| "js_lt a NegInf = False"
| "js_lt a PosInf = True"
| "js_lt NegInf b = True"

definition js_ge :: "number \<Rightarrow> number \<Rightarrow> bool" where
  "js_ge a b = (a \<noteq> NaN \<and> b \<noteq> NaN \<and> \<not> js_lt a b)"

text \<open>
  \<^verbatim>\<open>Math.round(x)\<close>: the integer nearest to \<open>x\<close>, a tie going towards \<open>+\<infinity>\<close>; the infinities
  and \<open>NaN\<close> are returned as they are. The result is exact (an integer next to a binary64
  value is a binary64 value).
\<close>

fun Math_round :: "number \<Rightarrow> number" where
  "Math_round (Num x) = Num (of_int \<lfloor>x + 1 / 2\<rfloor>)"
| "Math_round PosInf = PosInf"
| "Math_round NegInf = NegInf"
| "Math_round NaN = NaN"

text \<open>
  A value that may be \<^verbatim>\<open>undefined\<close> is an option; an arithmetic operator converts
  \<^verbatim>\<open>undefined\<close> to \<open>NaN\<close>.
\<close>

definition ToNumber :: "number option \<Rightarrow> number" where
  "ToNumber v = (case v of None \<Rightarrow> NaN | Some n \<Rightarrow> n)"

section \<open>JavaScript strings\<close>

text \<open>
  A string whose characters the program inspects (a location, a delivery address) is the
  list of its UTF-16 code units, 16-bit words. \<open>lit\<close> gives the code units of an ASCII literal.
  Strings that are only compared, stored or shown (currency codes, promo codes,
  identifiers, messages) are plain character lists.

  \<^verbatim>\<open>trim\<close> strips the white space and the line terminators of the language from both
  ends: the code units below, among them the no-break space \<open>U+00A0\<close> and the byte order
  mark \<open>U+FEFF\<close>. \<^verbatim>\<open>toLowerCase\<close> maps \<open>A\<close> to \<open>Z\<close> to \<open>a\<close> to \<open>z\<close> in a string of ASCII code
  units. On a string with a code unit outside ASCII it is the case conversion of the
  Unicode standard, which may fold such a character to an ASCII letter (the Kelvin sign
  \<open>U+212A\<close> to \<open>k\<close>); that conversion is the argument \<open>unicode\<close>, of which nothing is
  assumed. \<^verbatim>\<open>includes\<close> (\<open>str_includes\<close>) is the substring test.
\<close>

type_synonym code_unit = "16 word"

type_synonym js_string = "code_unit list"

definition lit :: "string \<Rightarrow> js_string" where
  "lit s = map of_char s"

definition toLowerCase_unit :: "code_unit \<Rightarrow> code_unit" where
  "toLowerCase_unit c = (if 65 \<le> c \<and> c \<le> 90 then c + 32 else c)"

definition toLowerCase :: "(js_string \<Rightarrow> js_string) \<Rightarrow> js_string \<Rightarrow> js_string" where
  "toLowerCase unicode s =
     (if list_all (\<lambda>c. c < 128) s then map toLowerCase_unit s else unicode s)"

definition is_space :: "code_unit \<Rightarrow> bool" where
  "is_space c =
     (c \<in> {9, 10, 11, 12, 13, 32, 160, 5760, 8232, 8233, 8239, 8287, 12288, 65279}
      \<or> (8192 \<le> c \<and> c \<le> 8202))"

definition trim :: "js_string \<Rightarrow> js_string" where
  "trim s = rev (dropWhile is_space (rev (dropWhile is_space s)))"

fun startsWith :: "js_string \<Rightarrow> js_string \<Rightarrow> bool" where
  "startsWith s [] = True"
| "startsWith [] (k # ks) = False"
| "startsWith (c # cs) (k # ks) = (c = k \<and> startsWith cs ks)"

fun str_includes :: "js_string \<Rightarrow> js_string \<Rightarrow> bool" where
  "str_includes [] sub = (sub = [])"
| "str_includes (c # cs) sub = (startsWith (c # cs) sub \<or> str_includes cs sub)"

section \<open>Delivery fee, service fee and order total\<close>

definition SERVICE_FEE_PERCENTAGE :: number where
  "SERVICE_FEE_PERCENTAGE = fl (2 / 100)"

record fees =
  local :: number
  national :: number
  international :: number

definition DELIVERY_FEES_BY_CURRENCY :: "string \<rightharpoonup> fees" where
  "DELIVERY_FEES_BY_CURRENCY = map_of
     [(''NGN'', \<lparr>local = Num 3500, national = Num 5000, international = Num 15000\<rparr>),
      (''USD'', \<lparr>local = Num 5, national = Num 8, international = Num 25\<rparr>),
      (''EUR'', \<lparr>local = Num 4, national = Num 7, international = Num 20\<rparr>),
      (''GBP'', \<lparr>local = Num 4, national = Num 6, international = Num 18\<rparr>),
      (''CAD'', \<lparr>local = Num 6, national = Num 9, international = Num 28\<rparr>),
      (''AUD'', \<lparr>local = Num 6, national = Num 9, international = Num 30\<rparr>),
      (''JPY'', \<lparr>local = Num 500, national = Num 800, international = Num 2500\<rparr>),
      (''CHF'', \<lparr>local = Num 4, national = Num 7, international = Num 20\<rparr>),
      (''CNY'', \<lparr>local = Num 30, national = Num 50, international = Num 150\<rparr>),
      (''INR'', \<lparr>local = Num 300, national = Num 500, international = Num 1500\<rparr>),
      (''ZAR'', \<lparr>local = Num 80, national = Num 120, international = Num 400\<rparr>)]"

definition nigerianStates :: "js_string list" where
  "nigerianStates = map lit
     [''abia'', ''adamawa'', ''akwa ibom'', ''anambra'', ''bauchi'', ''bayelsa'', ''benue'',
      ''borno'', ''cross river'', ''delta'', ''ebonyi'', ''edo'', ''ekiti'', ''enugu'',
      ''gombe'', ''imo'', ''jigawa'', ''kaduna'', ''kano'', ''katsina'', ''kebbi'', ''kogi'',
      ''kwara'', ''nasarawa'', ''niger'', ''ogun'', ''ondo'', ''osun'', ''oyo'', ''plateau'',
      ''rivers'', ''sokoto'', ''taraba'', ''yobe'', ''zamfara'', ''abuja'', ''fct'']"

definition nigerianCities :: "js_string list" where
  "nigerianCities = map lit
     [''abuja'', ''kano'', ''ibadan'', ''kaduna'', ''port harcourt'', ''benin'', ''maiduguri'',
      ''zaria'', ''aba'', ''jos'', ''ilorin'', ''oyo'', ''enugu'', ''abeokuta'', ''abuja'',
      ''sokoto'', ''onitsha'', ''warri'', ''okene'', ''calabar'', ''uyo'', ''katsina'',
      ''ado-ekiti'', ''awka'', ''bauchi'', ''akure'', ''makurdi'', ''lafia'', ''gombe'',
      ''yenagoa'', ''jalingo'', ''owerri'', ''abakaliki'', ''dutse'', ''damaturu'',
      ''gusau'', ''yola'', ''minna'', ''birnin kebbi'', ''lokoja'', ''osogbo'']"

text \<open>
  The table is an object literal, and \<^verbatim>\<open>DELIVERY_FEES_BY_CURRENCY[currency]\<close> reads a
  property of it: one of its own rows, or else a member that every object inherits from
  \<^verbatim>\<open>Object.prototype\<close>. The names of these members are listed here. Each of them is a
  function, or for \<^verbatim>\<open>__proto__\<close> the prototype object itself: a value that counts as true,
  so that \<^verbatim>\<open>||\<close> keeps it, and that has no property \<^verbatim>\<open>local\<close>, \<^verbatim>\<open>national\<close> or
  \<^verbatim>\<open>international\<close>.
\<close>

definition Object_prototype_members :: "string list" where
  "Object_prototype_members =
     [''constructor'', ''hasOwnProperty'', ''isPrototypeOf'', ''propertyIsEnumerable'',
      ''toLocaleString'', ''toString'', ''valueOf'', ''__proto__'', ''__defineGetter__'',
      ''__defineSetter__'', ''__lookupGetter__'', ''__lookupSetter__'']"

definition inherited :: "string \<Rightarrow> bool" where
  "inherited key = (key \<in> set Object_prototype_members)"

text \<open>
  The first statement of \<^verbatim>\<open>calculateDeliveryFee\<close>,
  \<^verbatim>\<open>fees = DELIVERY_FEES_BY_CURRENCY[currency] || DELIVERY_FEES_BY_CURRENCY.NGN\<close>: the row of
  the currency; for the name of an inherited member, that member, which is no row
  (\<open>None\<close>: each of \<^verbatim>\<open>fees.local\<close>, \<^verbatim>\<open>fees.national\<close> and \<^verbatim>\<open>fees.international\<close> is then
  \<^verbatim>\<open>undefined\<close>); for every other string the row of \<^verbatim>\<open>NGN\<close>.
\<close>

definition fees_for :: "string \<Rightarrow> fees option" where
  "fees_for currency =
     (case DELIVERY_FEES_BY_CURRENCY currency of
        Some f \<Rightarrow> Some f
      | None \<Rightarrow> if inherited currency then None else DELIVERY_FEES_BY_CURRENCY ''NGN'')"

text \<open>
  \<^verbatim>\<open>calculateDeliveryFee(location, currency)\<close>. The location is \<open>None\<close> when the argument
  is missing (\<^verbatim>\<open>null\<close> or \<^verbatim>\<open>undefined\<close>); \<^verbatim>\<open>!location\<close> holds for a missing and for an empty
  string. The result is \<open>None\<close> when the function returns \<^verbatim>\<open>undefined\<close>.
\<close>

definition calculateDeliveryFee ::
  "(js_string \<Rightarrow> js_string) \<Rightarrow> js_string option \<Rightarrow> string \<Rightarrow> number option" where
  "calculateDeliveryFee unicode location currency =
     (let fees = fees_for currency
      in case location of
           None \<Rightarrow> map_option local fees
         | Some loc \<Rightarrow>
             if loc = [] then map_option local fees
             else let normalizedLocation = trim (toLowerCase unicode loc)
                  in if currency = ''NGN'' \<and> str_includes normalizedLocation (lit ''lagos'')
                     then map_option local fees
                     else if currency = ''NGN''
                     then (if str_includes normalizedLocation (lit ''nigeria'')
                              \<or> list_ex (\<lambda>state. str_includes normalizedLocation state) nigerianStates
                              \<or> list_ex (\<lambda>city. str_includes normalizedLocation city) nigerianCities
                           then map_option national fees
                           else map_option international fees)
                     else if str_includes normalizedLocation (lit ''international'')
                              \<or> str_includes normalizedLocation (lit ''worldwide'')
                              \<or> str_includes normalizedLocation (lit ''global'')
                     then map_option international fees
                     else map_option national fees)"

definition calculateServiceFee :: "number \<Rightarrow> number" where
  "calculateServiceFee subtotal' =
     js_div (Math_round (js_mul (js_mul subtotal' SERVICE_FEE_PERCENTAGE) (Num 100))) (Num 100)"

record OrderTotals =
  subtotal :: number
  serviceFee :: number
  deliveryFee :: "number option"
  discountAmount :: number
  total :: number
  currency :: string

definition calculateOrderTotal ::
  "(js_string \<Rightarrow> js_string) \<Rightarrow> number \<Rightarrow> js_string option \<Rightarrow> string \<Rightarrow> number \<Rightarrow> OrderTotals" where
  "calculateOrderTotal unicode subtotal' location currency' discountAmount' =
     (let serviceFee' = calculateServiceFee subtotal';
          deliveryFee' = calculateDeliveryFee unicode location currency';
          total' = js_add (js_add subtotal' serviceFee') (ToNumber deliveryFee')
      in \<lparr>subtotal = subtotal',
          serviceFee = serviceFee',
          deliveryFee = deliveryFee',
          discountAmount = discountAmount',
          total = js_div (Math_round (js_mul total' (Num 100))) (Num 100),
          currency = currency'\<rparr>)"

section \<open>Promo codes\<close>

text \<open>A \<^verbatim>\<open>Date\<close> is its time value, the milliseconds since the epoch.\<close>

type_synonym date = int

record PromoCode =
  code :: string
  description :: string
  discount :: number
  isActive :: bool
  maxUses :: "number option"
  currentUses :: "number option"
  startDate :: "date option"
  endDate :: "date option"

definition promo :: "string \<Rightarrow> string \<Rightarrow> number \<Rightarrow> PromoCode" where
  "promo c d r =
     \<lparr>code = c, description = d, discount = r, isActive = True,
      maxUses = None, currentUses = None, startDate = None, endDate = None\<rparr>"

definition PROMO_CODES :: "string \<rightharpoonup> PromoCode" where
  "PROMO_CODES = map_of
     [(''WELCOME10'', promo ''WELCOME10'' ''10% off your order'' (fl (10 / 100))),
      (''SAVE20'', promo ''SAVE20'' ''20% off your order'' (fl (20 / 100))),
      (''FIRST15'', promo ''FIRST15'' ''15% off for first-time customers'' (fl (15 / 100))),
      (''STUDENT'', promo ''STUDENT'' ''12% student discount'' (fl (12 / 100))),
      (''HOLIDAY25'', promo ''HOLIDAY25'' ''25% holiday special'' (fl (25 / 100)))]"

text \<open>
  \<^verbatim>\<open>validatePromoCode(code)\<close> reads the module constant \<^verbatim>\<open>PROMO_CODES\<close> and the clock
  (\<^verbatim>\<open>new Date()\<close>); both are arguments here, the catalogue first.
\<close>

definition validatePromoCode_in ::
  "(string \<rightharpoonup> PromoCode) \<Rightarrow> date \<Rightarrow> string \<Rightarrow> PromoCode option" where
  "validatePromoCode_in catalogue now c =
     (case catalogue c of
        None \<Rightarrow> None
      | Some promoCode \<Rightarrow>
          if \<not> isActive promoCode then None
          else if (case startDate promoCode of Some s \<Rightarrow> now < s | None \<Rightarrow> False) then None
          else if (case endDate promoCode of Some e \<Rightarrow> e < now | None \<Rightarrow> False) then None
          else if (case (maxUses promoCode, currentUses promoCode) of
                     (Some m, Some u) \<Rightarrow> js_ge u m
                   | _ \<Rightarrow> False) then None
          else Some promoCode)"

definition validatePromoCode :: "date \<Rightarrow> string \<Rightarrow> PromoCode option" where
  "validatePromoCode now c = validatePromoCode_in PROMO_CODES now c"

definition calculateDiscount :: "number \<Rightarrow> PromoCode \<Rightarrow> number" where
  "calculateDiscount subtotal' promoCode = js_mul subtotal' (discount promoCode)"

section \<open>Adding a selection to the cart\<close>

text \<open>
  The product modal keeps the selected sizes and colours, the quantity and a loading flag.
  \<^verbatim>\<open>Alert.alert(title, message)\<close> appends to the list of alerts shown; \<^verbatim>\<open>addToCart\<close> belongs
  to the cart context, which is outside this code: its outcome (\<open>None\<close>, or the error it
  throws) is an argument, and the item lists it is called with are recorded. The
  conversion of a number to text in a template string is the argument \<open>toString\<close>.
\<close>

datatype alert = Alert string string

record Product =
  prod_id :: string
  prod_name :: string
  prod_description :: string
  prod_price :: number
  image_url :: string
  category :: string
  sizes :: "string list"
  colors :: "string list"
  stock :: number

record CartItem =
  productId :: string
  productName :: string
  productImage :: string
  price :: number
  item_size :: string
  color :: string
  quantity :: number

record modal =
  selectedSizes :: "string list"
  selectedColors :: "string list"
  selectedQuantity :: number
  modal_loading :: bool
  modal_alerts :: "alert list"
  addToCart_calls :: "CartItem list list"

definition newItem :: "Product \<Rightarrow> number \<Rightarrow> string \<Rightarrow> string \<Rightarrow> CartItem" where
  "newItem product q sz col =
     \<lparr>productId = prod_id product,
      productName = prod_name product,
      productImage = image_url product,
      price = prod_price product,
      item_size = sz,
      color = col,
      quantity = q\<rparr>"

text \<open>The two nested \<^verbatim>\<open>forEach\<close> loops, each \<^verbatim>\<open>push\<close> appending to \<^verbatim>\<open>newItems\<close>.\<close>

definition newItems :: "Product \<Rightarrow> number \<Rightarrow> string list \<Rightarrow> string list \<Rightarrow> CartItem list" where
  "newItems product q szs cols =
     fold (\<lambda>sz acc. fold (\<lambda>col acc'. acc' @ [newItem product q sz col]) cols acc) szs []"

definition resetModal :: "modal \<Rightarrow> modal" where
  "resetModal m = m\<lparr>selectedSizes := [], selectedColors := [], selectedQuantity := Num 1\<rparr>"

definition handleAddToCart ::
  "(number \<Rightarrow> string) \<Rightarrow> (CartItem list \<Rightarrow> string option) \<Rightarrow> Product \<Rightarrow> modal \<Rightarrow> modal" where
  "handleAddToCart toString addToCart product m =
     (if length (selectedSizes m) = 0 \<or> length (selectedColors m) = 0
      then m\<lparr>modal_alerts := modal_alerts m @
                [Alert ''Selection Required'' ''Please select at least one size and one color'']\<rparr>
      else
        let m1 = m\<lparr>modal_loading := True\<rparr>;
            its = newItems product (selectedQuantity m) (selectedSizes m) (selectedColors m);
            m2 = m1\<lparr>addToCart_calls := addToCart_calls m1 @ [its]\<rparr>;
            m3 = (case addToCart its of
                    None \<Rightarrow>
                      let totalAdded = js_mul (Num (of_nat (length (selectedSizes m))))
                                              (Num (of_nat (length (selectedColors m))))
                      in resetModal
                           (m2\<lparr>modal_alerts := modal_alerts m2 @
                                 [Alert ''Added to Cart''
                                    (''Added '' @ toString totalAdded @ '' item''
                                       @ (if js_lt (Num 1) totalAdded then ''s'' else [])
                                       @ '' to your cart'')]\<rparr>)
                  | Some err \<Rightarrow>
                      m2\<lparr>modal_alerts := modal_alerts m2 @
                           [Alert ''Error'' ''Failed to add items to cart. Please try again.'']\<rparr>)
        in m3\<lparr>modal_loading := False\<rparr>)"

section \<open>Checkout\<close>

text \<open>
  The checkout screen with the services it calls. The backend tables, the cart, the
  remote calls issued so far (in order) and the state of the screen are one record.
  Each remote call either fails with a message or succeeds (\<open>remote\<close>); a call that
  fails changes nothing. \<^verbatim>\<open>convertFromNGN\<close> and \<^verbatim>\<open>formatCurrency\<close> come from the currency
  library, which is outside this code, and are arguments (\<open>lib\<close>), as are the
  conversion of a number to text and the case conversion of the Unicode standard.
\<close>

datatype PaymentMethod = wallet | card | paypal

record OrderItem =
  product_id :: string
  name :: string
  oi_price :: number
  oi_quantity :: number
  oi_size :: string
  oi_color :: string

record Order =
  user_id :: string
  order_items :: "OrderItem list"
  order_subtotal :: number
  service_fee :: number
  delivery_fee :: "number option"
  order_total :: number
  payment_method :: string
  payment_status :: string
  order_status :: string
  delivery_address :: js_string
  order_currency :: string
  promo_code :: "string option"
  discount_amount :: number

record Transaction =
  tx_user_id :: string
  tx_type :: string
  amount :: number
  tx_description :: string
  reference :: string
  status :: string

record User =
  uid :: string

record Profile =
  wallet_balance :: number
  preferred_currency :: "string option"

record OrderInfo =
  info_totals :: OrderTotals
  info_items :: "OrderItem list"
  info_delivery_address :: js_string
  info_payment_method :: PaymentMethod
  original_amount :: number
  info_appliedPromo :: "PromoCode option"

datatype call =
    ValidateStock "OrderItem list"
  | InsertOrder Order
  | UpdateWallet number
  | InsertTransaction Transaction
  | RefreshProfile
  | ClearCart

record remote =
  validate_stock_availability :: "OrderItem list \<Rightarrow> string option"
  insert_order :: "Order \<Rightarrow> string + string"
  update_wallet :: "number \<Rightarrow> string option"
  insert_transaction :: "Transaction \<Rightarrow> string option"
  refreshProfile :: "string option"
  clearCart :: "string option"

record lib =
  convertFromNGN :: "number \<Rightarrow> string \<Rightarrow> number"
  formatCurrency :: "number \<Rightarrow> string \<Rightarrow> string"
  Number_toString :: "number \<Rightarrow> string"
  unicode_toLowerCase :: "js_string \<Rightarrow> js_string"

record world =
  orders :: "(string \<times> Order) list"
  transactions :: "Transaction list"
  profiles_wallet_balance :: number
  cart :: "CartItem list"
  calls :: "call list"
  user :: "User option"
  profile :: "Profile option"
  items :: "CartItem list"
  appliedPromo :: "PromoCode option"
  deliveryAddress :: js_string
  loading :: bool
  showPaystack :: bool
  showPayPal :: bool
  orderData :: "OrderInfo option"
  alerts :: "alert list"

definition userCurrency :: "world \<Rightarrow> string" where
  "userCurrency w =
     (case profile w of
        None \<Rightarrow> ''NGN''
      | Some p \<Rightarrow> (case preferred_currency p of
                     None \<Rightarrow> ''NGN''
                   | Some c \<Rightarrow> if c = [] then ''NGN'' else c))"

definition getSubtotalInNGN :: "world \<Rightarrow> number" where
  "getSubtotalInNGN w =
     fold (\<lambda>item sum. js_add sum (js_mul (price item) (quantity item))) (items w) (Num 0)"

definition getTotalItems :: "world \<Rightarrow> number" where
  "getTotalItems w = fold (\<lambda>item sum. js_add sum (quantity item)) (items w) (Num 0)"

text \<open>
  The totals of the order in the base currency, as the screen and \<^verbatim>\<open>handleOrder\<close> both
  compute them: the discount is taken off the subtotal before \<^verbatim>\<open>calculateOrderTotal\<close>,
  which is called without its fourth argument (the default 0).
\<close>

definition discountNGN :: "world \<Rightarrow> number" where
  "discountNGN w =
     (case appliedPromo w of
        Some pr \<Rightarrow> js_mul (getSubtotalInNGN w) (discount pr)
      | None \<Rightarrow> Num 0)"

definition discountedSubtotalNGN :: "world \<Rightarrow> number" where
  "discountedSubtotalNGN w = js_sub (getSubtotalInNGN w) (discountNGN w)"

definition orderTotals :: "lib \<Rightarrow> world \<Rightarrow> OrderTotals" where
  "orderTotals l w =
     calculateOrderTotal (unicode_toLowerCase l) (discountedSubtotalNGN w)
       (Some (deliveryAddress w)) ''NGN'' (Num 0)"

definition orderItem :: "CartItem \<Rightarrow> OrderItem" where
  "orderItem item =
     \<lparr>product_id = productId item,
      name = productName item,
      oi_price = price item,
      oi_quantity = quantity item,
      oi_size = item_size item,
      oi_color = color item\<rparr>"

definition issue :: "call \<Rightarrow> world \<Rightarrow> world" where
  "issue c w = w\<lparr>calls := calls w @ [c]\<rparr>"

definition alert_show :: "string \<Rightarrow> string \<Rightarrow> world \<Rightarrow> world" where
  "alert_show title message w = w\<lparr>alerts := alerts w @ [Alert title message]\<rparr>"

text \<open>
  \<^verbatim>\<open>processWalletPayment(orderTotals, discountAmount)\<close>. The result is the world after it and
  the exception it throws, if any: the \<^verbatim>\<open>catch\<close> block logs the error and throws it again.
  \<^verbatim>\<open>user!.id\<close> and \<^verbatim>\<open>profile!.wallet_balance\<close> throw a \<^verbatim>\<open>TypeError\<close> when the value is missing,
  at the point where the argument of the call is built.
\<close>

definition walletOrder :: "world \<Rightarrow> User \<Rightarrow> OrderTotals \<Rightarrow> number \<Rightarrow> Order" where
  "walletOrder w u totals discountAmount' =
     \<lparr>user_id = uid u,
      order_items = map orderItem (items w),
      order_subtotal = subtotal totals,
      service_fee = serviceFee totals,
      delivery_fee = deliveryFee totals,
      order_total = total totals,
      payment_method = ''wallet'',
      payment_status = ''paid'',
      order_status = ''pending'',
      delivery_address = trim (deliveryAddress w),
      order_currency = ''NGN'',
      promo_code = (case appliedPromo w of
                      None \<Rightarrow> None
                    | Some p \<Rightarrow> if code p = [] then None else Some (code p)),
      discount_amount = discountAmount'\<rparr>"

definition walletTransaction :: "lib \<Rightarrow> world \<Rightarrow> User \<Rightarrow> OrderTotals \<Rightarrow> string \<Rightarrow> Transaction" where
  "walletTransaction l w u totals orderId =
     \<lparr>tx_user_id = uid u,
      tx_type = ''debit'',
      amount = total totals,
      tx_description =
        ''Order payment - '' @ Number_toString l (getTotalItems w) @ '' items''
          @ (case appliedPromo w of
               None \<Rightarrow> []
             | Some p \<Rightarrow> '' ('' @ code p @ '' applied)''),
      reference = orderId,
      status = ''completed''\<rparr>"

definition processWalletPayment ::
  "lib \<Rightarrow> remote \<Rightarrow> OrderTotals \<Rightarrow> number \<Rightarrow> world \<Rightarrow> world \<times> string option" where
  "processWalletPayment l r totals discountAmount' w =
     (let orderItems = map orderItem (items w);
          w1 = issue (ValidateStock orderItems) w
      in case validate_stock_availability r orderItems of
           Some msg \<Rightarrow> (w1, Some (''Stock validation failed: '' @ msg))
         | None \<Rightarrow>
         (case user w1 of
            None \<Rightarrow> (w1, Some ''TypeError'')
          | Some u \<Rightarrow>
            (let order = walletOrder w1 u totals discountAmount';
                 w2 = issue (InsertOrder order) w1
             in case insert_order r order of
                  Inl orderError \<Rightarrow> (w2, Some orderError)
                | Inr orderId \<Rightarrow>
                (let w3 = w2\<lparr>orders := orders w2 @ [(orderId, order)]\<rparr>
                 in case profile w3 of
                      None \<Rightarrow> (w3, Some ''TypeError'')
                    | Some p \<Rightarrow>
                    (let balance = js_sub (wallet_balance p) (total totals);
                         w4 = issue (UpdateWallet balance) w3
                     in case update_wallet r balance of
                          Some walletError \<Rightarrow> (w4, Some walletError)
                        | None \<Rightarrow>
                        (let w5 = w4\<lparr>profiles_wallet_balance := balance\<rparr>;
                             tx = walletTransaction l w5 u totals orderId;
                             w6 = issue (InsertTransaction tx) w5
                         in case insert_transaction r tx of
                              Some transactionError \<Rightarrow> (w6, Some transactionError)
                            | None \<Rightarrow>
                            (let w7 = w6\<lparr>transactions := transactions w6 @ [tx]\<rparr>;
                                 w8 = issue RefreshProfile w7
                             in case refreshProfile r of
                                  Some e \<Rightarrow> (w8, Some e)
                                | None \<Rightarrow>
                                (let w9 = w8\<lparr>profile :=
                                             Some (p\<lparr>wallet_balance := profiles_wallet_balance w8\<rparr>)\<rparr>;
                                     w10 = issue ClearCart w9
                                 in case clearCart r of
                                      Some e \<Rightarrow> (w10, Some e)
                                    | None \<Rightarrow>
                                        (alert_show ''Order Placed Successfully''
                                           ''Your order has been confirmed and is now pending processing. You will receive updates as it progresses.''
                                           (w10\<lparr>cart := []\<rparr>),
                                         None)))))))))"

text \<open>
  \<^verbatim>\<open>handleOrder(paymentMethod)\<close>. The \<^verbatim>\<open>finally\<close> block clears the loading flag on every
  path that entered the \<^verbatim>\<open>try\<close>.
\<close>

definition handleOrder :: "lib \<Rightarrow> remote \<Rightarrow> PaymentMethod \<Rightarrow> world \<Rightarrow> world" where
  "handleOrder l r paymentMethod w =
     (if trim (deliveryAddress w) = []
      then alert_show ''Delivery Address Required'' ''Please enter your delivery address'' w
      else case (user w, profile w) of
        (Some u, Some p) \<Rightarrow>
          let w1 = w\<lparr>loading := True\<rparr>;
              totals = orderTotals l w1
          in if paymentMethod = wallet
             then
               if js_lt (wallet_balance p) (total totals)
               then
                 let neededInUserCurrency = convertFromNGN l (total totals) (userCurrency w1);
                     balanceInUserCurrency = convertFromNGN l (wallet_balance p) (userCurrency w1);
                     w2 = alert_show ''Insufficient Balance''
                            (''Your wallet balance is ''
                               @ formatCurrency l balanceInUserCurrency (userCurrency w1)
                               @ ''. You need ''
                               @ formatCurrency l neededInUserCurrency (userCurrency w1)
                               @ '' to complete this order.'') w1
                 in w2\<lparr>loading := False\<rparr>
               else
                 (case processWalletPayment l r totals (discountNGN w1) w1 of
                    (w2, None) \<Rightarrow> w2\<lparr>loading := False\<rparr>
                  | (w2, Some err) \<Rightarrow>
                      (alert_show ''Error'' ''Failed to process order. Please try again.'' w2)
                        \<lparr>loading := False\<rparr>)
             else
               let paymentCurrency = userCurrency w1;
                   paymentAmount = (if userCurrency w1 = ''NGN'' then total totals
                                    else convertFromNGN l (total totals) (userCurrency w1));
                   orderInfo =
                     \<lparr>info_totals = totals\<lparr>currency := paymentCurrency,
                                           discountAmount := discountNGN w1\<rparr>,
                      info_items = map orderItem (items w1),
                      info_delivery_address = trim (deliveryAddress w1),
                      info_payment_method = paymentMethod,
                      original_amount = paymentAmount,
                      info_appliedPromo = appliedPromo w1\<rparr>;
                   w2 = w1\<lparr>orderData := Some orderInfo\<rparr>;
                   w3 = (if paymentMethod = card \<and> userCurrency w1 = ''NGN''
                         then w2\<lparr>showPaystack := True\<rparr>
                         else if paymentMethod = paypal \<or> userCurrency w1 \<noteq> ''NGN''
                         then w2\<lparr>showPayPal := True\<rparr>
                         else w2)
               in w3\<lparr>loading := False\<rparr>
      | _ \<Rightarrow> alert_show ''Authentication Required'' ''Please sign in to place an order'' w)"

definition handlePaystackCancel :: "world \<Rightarrow> world" where
  "handlePaystackCancel w =
     alert_show ''Payment Cancelled'' ''Your payment was cancelled''
       (w\<lparr>showPaystack := False, loading := False\<rparr>)"

definition handlePayPalCancel :: "world \<Rightarrow> world" where
  "handlePayPalCancel w =
     alert_show ''Payment Cancelled'' ''Your payment was cancelled''
       (w\<lparr>showPayPal := False, loading := False\<rparr>)"

section \<open>Example data\<close>

text \<open>
  A product, a cart of one item, a currency library and two backends: one on which every
  call succeeds, and one on which the update of the wallet fails.
\<close>

definition example_product :: Product where
  "example_product =
     \<lparr>prod_id = ''p1'', prod_name = ''Shirt'', prod_description = ''A shirt'',
      prod_price = Num 1000, image_url = ''shirt.png'', category = ''tops'',
      sizes = [''S'', ''M'', ''L''], colors = [''Red'', ''Blue''], stock = Num 10\<rparr>"

definition example_item :: CartItem where
  "example_item = newItem example_product (Num 1) ''M'' ''Red''"

definition example_lib :: lib where
  "example_lib =
     \<lparr>convertFromNGN = (\<lambda>a c. a),
      formatCurrency = (\<lambda>a c. c),
      Number_toString = (\<lambda>n. ''1''),
      unicode_toLowerCase = (\<lambda>s. s)\<rparr>"

definition remote_ok :: remote where
  "remote_ok =
     \<lparr>validate_stock_availability = (\<lambda>its. None),
      insert_order = (\<lambda>order. Inr ''order-1''),
      update_wallet = (\<lambda>balance. None),
      insert_transaction = (\<lambda>tx. None),
      refreshProfile = None,
      clearCart = None\<rparr>"

definition remote_wallet_down :: remote where
  "remote_wallet_down = remote_ok\<lparr>update_wallet := (\<lambda>balance. Some ''wallet update failed'')\<rparr>"

definition example_world :: "number \<Rightarrow> world" where
  "example_world balance =
     \<lparr>orders = [], transactions = [], profiles_wallet_balance = balance,
      cart = [example_item], calls = [],
      user = Some \<lparr>uid = ''user-1''\<rparr>,
      profile = Some \<lparr>wallet_balance = balance, preferred_currency = None\<rparr>,
      items = [example_item], appliedPromo = None, deliveryAddress = lit ''Lagos'',
      loading = False, showPaystack = False, showPayPal = False, orderData = None,
      alerts = []\<rparr>"


section \<open>Reference values of the specification\<close>

text \<open>
  The specification's \<open>round(x, 2)\<close>: the exact value \<open>x\<close> rounded to two decimal places, a
  half going up. It is a function of exact rationals, and is used only to state what
  the specification asks of the code.
\<close>

definition round_half_up_2dp :: "rat \<Rightarrow> rat" where
  "round_half_up_2dp x = of_int \<lfloor>x * 100 + 1 / 2\<rfloor> / 100"

text \<open>
  The text of a location contains a keyword, whatever the case of its letters: its
  conversion to lower case contains the keyword. The keywords of the code are in lower
  case.
\<close>

definition mentions :: "(js_string \<Rightarrow> js_string) \<Rightarrow> js_string \<Rightarrow> js_string \<Rightarrow> bool" where
  "mentions unicode loc kw = str_includes (toLowerCase unicode loc) kw"

text \<open>
  A keyword is not empty and neither starts nor ends with white space, so that trimming
  a text does not change whether it contains the keyword.
\<close>

definition keyword :: "js_string \<Rightarrow> bool" where
  "keyword k = (k \<noteq> [] \<and> \<not> is_space (hd k) \<and> \<not> is_space (last k))"

section \<open>The computation on finite values\<close>

text \<open>
  What the operations of the service fee and of the total compute on rationals as long as
  no result overflows: \<open>percentage\<close> for \<^verbatim>\<open>SERVICE_FEE_PERCENTAGE\<close>, \<open>cents x\<close> for \<^verbatim>\<open>Math.round(x * 100) / 100\<close>, \<open>serviceFee_finite s\<close> for
  \<^verbatim>\<open>calculateServiceFee(s)\<close>, and \<open>total_finite s fee d\<close> for the total of the subtotal
  \<open>s\<close>, the service fee \<open>fee\<close> and the delivery fee \<open>d\<close>. A number \<open>n\<close> is \<open>r\<close> unless it
  overflowed when it is \<open>r\<close> or \<open>+\<infinity>\<close>.
\<close>

definition cents :: "rat \<Rightarrow> rat" where
  "cents x = rnd (of_int \<lfloor>rnd (x * 100) + 1 / 2\<rfloor> / 100)"

definition percentage :: rat where
  "percentage = rnd (2 / 100)"

definition serviceFee_finite :: "rat \<Rightarrow> rat" where
  "serviceFee_finite s = cents (rnd (s * percentage))"

definition total_finite :: "rat \<Rightarrow> rat \<Rightarrow> rat \<Rightarrow> rat" where
  "total_finite s fee d = cents (rnd (rnd (s + fee) + d))"

definition unless_overflow :: "rat \<Rightarrow> number \<Rightarrow> bool" where
  "unless_overflow r n = (n = Num r \<or> n = PosInf)"

section \<open>Rounding to binary64\<close>

text \<open>
  \<open>ilog2\<close> never overestimates the exponent, so the rounding error of \<open>rnd\<close> is at most half
  a unit in the last place: for \<open>x \<ge> 1\<close>, a relative error of at most \<open>2\<^sup>-\<^sup>5\<^sup>3\<close>.
\<close>

lemma pow2_powi: "pow2 e = 2 powi e"
  by (simp add: pow2_def power_int_def field_simps)

lemma pow2_pos: "0 < pow2 e"
  by (simp add: pow2_powi)

lemma pow2_add: "pow2 (a + b) = pow2 a * pow2 b"
  by (simp add: pow2_powi power_int_add)

lemma ilog2_le:
  assumes "0 < x"
  shows "pow2 (ilog2 x) \<le> x"
proof (cases "1 \<le> x")
  case True
  define n where "n = \<lfloor>x\<rfloor>"
  have n: "0 < n" using True by (simp add: n_def)
  have b: "1 \<le> bitlen n" using n by (simp add: bitlen_alt_def)
  have "(2::int) ^ nat (bitlen n - 1) \<le> n" using bitlen_bounds [OF n] by simp
  then have "(of_int ((2::int) ^ nat (bitlen n - 1)) :: rat) \<le> of_int n"
    by (simp only: of_int_le_iff)
  then have "(2::rat) ^ nat (bitlen n - 1) \<le> of_int n" by simp
  also have "\<dots> \<le> x" by (simp add: n_def)
  finally show ?thesis using True b by (simp add: ilog2_def pow2_def n_def)
next
  case False
  define c where "c = \<lceil>1 / x\<rceil>"
  have x1: "1 < 1 / x" using False assms by (simp add: field_simps)
  have c2: "2 \<le> c" using x1 unfolding c_def by linarith
  then have c0: "0 < c - 1" by simp
  define j where "j = bitlen (c - 1)"
  have j1: "1 \<le> j" using c0 by (simp add: j_def bitlen_alt_def)
  have "c - 1 < 2 ^ nat j" using bitlen_bounds [OF c0] by (simp add: j_def)
  then have "c \<le> 2 ^ nat j" by simp
  then have "(of_int c :: rat) \<le> of_int (2 ^ nat j)" by (simp only: of_int_le_iff)
  then have cj: "(of_int c :: rat) \<le> 2 ^ nat j" by simp
  have "1 / x \<le> of_int c" unfolding c_def by simp
  then have "1 / x \<le> 2 ^ nat j" using cj by linarith
  then have "1 / 2 ^ nat j \<le> x" using assms by (simp add: field_simps)
  then show ?thesis using False j1 by (simp add: ilog2_def pow2_def c_def j_def)
qed

lemma round_half_even_cases:
  fixes x :: rat
  defines "f \<equiv> \<lfloor>x\<rfloor>"
  shows "round_half_even x = (if x - of_int f < 1 / 2 then f
           else if 1 / 2 < x - of_int f then f + 1 else if even f then f else f + 1)"
  by (simp add: round_half_even_def Let_def f_def)

lemma round_half_even_lower: "x - 1 / 2 \<le> of_int (round_half_even x)"
proof -
  define f where "f = \<lfloor>x\<rfloor>"
  have 1: "of_int f \<le> x" and 2: "x < of_int f + 1" unfolding f_def by linarith+
  have "round_half_even x = (if x - of_int f < 1 / 2 then f
           else if 1 / 2 < x - of_int f then f + 1 else if even f then f else f + 1)"
    unfolding f_def by (rule round_half_even_cases)
  then show ?thesis using 1 2 by (auto split: if_splits)
qed

lemma round_half_even_upper: "of_int (round_half_even x) \<le> x + 1 / 2"
proof -
  define f where "f = \<lfloor>x\<rfloor>"
  have 1: "of_int f \<le> x" and 2: "x < of_int f + 1" unfolding f_def by linarith+
  have "round_half_even x = (if x - of_int f < 1 / 2 then f
           else if 1 / 2 < x - of_int f then f + 1 else if even f then f else f + 1)"
    unfolding f_def by (rule round_half_even_cases)
  then show ?thesis using 1 2 by (auto split: if_splits)
qed

lemma round_half_even_nonneg:
  assumes "0 \<le> x"
  shows "0 \<le> round_half_even x"
proof -
  define f where "f = \<lfloor>x\<rfloor>"
  have 1: "0 \<le> f" using assms by (simp add: f_def)
  have "round_half_even x = (if x - of_int f < 1 / 2 then f
           else if 1 / 2 < x - of_int f then f + 1 else if even f then f else f + 1)"
    unfolding f_def by (rule round_half_even_cases)
  then show ?thesis using 1 by (auto split: if_splits)
qed

lemma rnd_nonneg:
  assumes "0 \<le> x"
  shows "0 \<le> rnd x"
proof (cases "x = 0")
  case True
  then show ?thesis by (simp add: rnd_def)
next
  case False
  then have x: "0 < x" using assms by simp
  define e where "e = max (ilog2 x - 52) (- 1074)"
  have "0 \<le> x / pow2 e" using x pow2_pos [of e] by simp
  then have "0 \<le> round_half_even (x / pow2 e)" by (rule round_half_even_nonneg)
  then have "(0::rat) \<le> of_int (round_half_even (x / pow2 e)) * pow2 e"
    using pow2_pos [of e] by simp
  then show ?thesis using x by (simp add: rnd_def Let_def e_def)
qed

lemma ilog2_nonneg:
  assumes "1 \<le> x"
  shows "0 \<le> ilog2 x"
proof -
  have "0 < \<lfloor>x\<rfloor>" using assms by simp
  then have "1 \<le> bitlen \<lfloor>x\<rfloor>" by (simp add: bitlen_alt_def)
  then show ?thesis using assms by (simp add: ilog2_def)
qed

lemma rnd_lower:
  assumes "1 \<le> x"
  shows "x - x / 2 ^ 53 \<le> rnd x"
proof -
  define k where "k = ilog2 x"
  define e where "e = k - 52"
  have x0: "0 < x" using assms by simp
  have k0: "0 \<le> k" unfolding k_def using assms by (rule ilog2_nonneg)
  have emax: "max (ilog2 x - 52) (- 1074) = e" using k0 by (simp add: e_def k_def)
  have pk: "pow2 k \<le> x" unfolding k_def using x0 by (rule ilog2_le)
  have "pow2 k = pow2 e * pow2 52" using pow2_add [of e 52] by (simp add: e_def)
  then have pe: "pow2 e * 2 ^ 52 \<le> x" using pk by (simp add: pow2_def)
  have fx: "rnd x = of_int (round_half_even (x / pow2 e)) * pow2 e"
    using x0 emax by (simp add: rnd_def Let_def)
  have "(x / pow2 e - 1 / 2) * pow2 e \<le> of_int (round_half_even (x / pow2 e)) * pow2 e"
    using round_half_even_lower [of "x / pow2 e"] pow2_pos [of e]
    by (simp only: mult_le_cancel_right) simp
  moreover have "(x / pow2 e - 1 / 2) * pow2 e = x - pow2 e / 2"
    using pow2_pos [of e] by (simp add: field_simps)
  ultimately have "x - pow2 e / 2 \<le> rnd x" using fx by simp
  moreover have "pow2 e / 2 \<le> x / 2 ^ 53" using pe by (simp add: field_simps)
  ultimately show ?thesis by linarith
qed

lemma rnd_upper:
  assumes "1 \<le> x"
  shows "rnd x \<le> x + x / 2 ^ 53"
proof -
  define k where "k = ilog2 x"
  define e where "e = k - 52"
  have x0: "0 < x" using assms by simp
  have k0: "0 \<le> k" unfolding k_def using assms by (rule ilog2_nonneg)
  have emax: "max (ilog2 x - 52) (- 1074) = e" using k0 by (simp add: e_def k_def)
  have pk: "pow2 k \<le> x" unfolding k_def using x0 by (rule ilog2_le)
  have "pow2 k = pow2 e * pow2 52" using pow2_add [of e 52] by (simp add: e_def)
  then have pe: "pow2 e * 2 ^ 52 \<le> x" using pk by (simp add: pow2_def)
  have fx: "rnd x = of_int (round_half_even (x / pow2 e)) * pow2 e"
    using x0 emax by (simp add: rnd_def Let_def)
  have "of_int (round_half_even (x / pow2 e)) * pow2 e \<le> (x / pow2 e + 1 / 2) * pow2 e"
    using round_half_even_upper [of "x / pow2 e"] pow2_pos [of e]
    by (simp only: mult_le_cancel_right) simp
  moreover have "(x / pow2 e + 1 / 2) * pow2 e = x + pow2 e / 2"
    using pow2_pos [of e] by (simp add: field_simps)
  ultimately have "rnd x \<le> x + pow2 e / 2" using fx by simp
  moreover have "pow2 e / 2 \<le> x / 2 ^ 53" using pe by (simp add: field_simps)
  ultimately show ?thesis by linarith
qed

lemma rnd_abs_error:
  assumes "0 \<le> x"
  shows "\<bar>rnd x - x\<bar> \<le> x / 2 ^ 53 + 1 / 2 ^ 1075"
proof (cases "x = 0")
  case True
  then show ?thesis by (simp add: rnd_def)
next
  case False
  then have x0: "0 < x" using assms by simp
  define k where "k = ilog2 x"
  define e where "e = max (k - 52) (- 1074)"
  define m where "m = round_half_even (x / pow2 e)"
  have pk: "pow2 k \<le> x" unfolding k_def using x0 by (rule ilog2_le)
  have fx: "rnd x = of_int m * pow2 e"
    using x0 by (simp add: rnd_def Let_def e_def k_def m_def)
  have "(x / pow2 e - 1 / 2) * pow2 e \<le> of_int m * pow2 e"
    unfolding m_def using round_half_even_lower [of "x / pow2 e"] pow2_pos [of e]
    by (simp only: mult_le_cancel_right) simp
  moreover have "(x / pow2 e - 1 / 2) * pow2 e = x - pow2 e / 2"
    using pow2_pos [of e] by (simp add: field_simps)
  ultimately have lo: "x - pow2 e / 2 \<le> rnd x" using fx by simp
  have "of_int m * pow2 e \<le> (x / pow2 e + 1 / 2) * pow2 e"
    unfolding m_def using round_half_even_upper [of "x / pow2 e"] pow2_pos [of e]
    by (simp only: mult_le_cancel_right) simp
  moreover have "(x / pow2 e + 1 / 2) * pow2 e = x + pow2 e / 2"
    using pow2_pos [of e] by (simp add: field_simps)
  ultimately have hi: "rnd x \<le> x + pow2 e / 2" using fx by simp
  have pe: "pow2 e / 2 \<le> x / 2 ^ 53 + 1 / 2 ^ 1075"
  proof (cases "- 1074 \<le> k - 52")
    case True
    then have e: "e = k - 52" by (simp add: e_def)
    have "pow2 k = pow2 e * pow2 52" using pow2_add [of e 52] by (simp add: e)
    then have "pow2 e * 2 ^ 52 \<le> x" using pk by (simp add: pow2_def)
    then have "pow2 e / 2 \<le> x / 2 ^ 53" by (simp add: field_simps)
    then show ?thesis by (simp add: add_increasing2)
  next
    case False
    then have e: "e = - 1074" by (simp add: e_def)
    have "pow2 e / 2 = 1 / 2 ^ 1075" by (simp add: e pow2_def)
    then show ?thesis using x0 by simp
  qed
  show ?thesis using lo hi pe by linarith
qed

lemma rnd_near0:
  assumes "0 \<le> x"
  shows "999999999999999 * x - 1 / 10 \<le> 1000000000000000 * rnd x"
    and "1000000000000000 * rnd x \<le> 1000000000000001 * x + 1 / 10"
proof -
  have "x / 2 ^ 53 \<le> x / 1000000000000000" using assms by (simp add: field_simps)
  moreover have "(1::rat) / 2 ^ 1075 \<le> 1 / 10000000000000000" by simp
  ultimately have "x - rnd x \<le> x / 1000000000000000 + 1 / 10000000000000000"
    and "rnd x - x \<le> x / 1000000000000000 + 1 / 10000000000000000"
    using rnd_abs_error [OF assms] by linarith+
  then show "999999999999999 * x - 1 / 10 \<le> 1000000000000000 * rnd x"
    and "1000000000000000 * rnd x \<le> 1000000000000001 * x + 1 / 10"
    by linarith+
qed

lemma rnd_near:
  assumes "1 \<le> x"
  shows "999999999999999 * x \<le> 1000000000000000 * rnd x"
    and "1000000000000000 * rnd x \<le> 1000000000000001 * x"
proof -
  have "x / 2 ^ 53 \<le> x / 1000000000000000" using assms by (simp add: field_simps)
  then have "x - x / 1000000000000000 \<le> rnd x" "rnd x \<le> x + x / 1000000000000000"
    using rnd_lower [OF assms] rnd_upper [OF assms] by linarith+
  then show "999999999999999 * x \<le> 1000000000000000 * rnd x"
    and "1000000000000000 * rnd x \<le> 1000000000000001 * x"
    by (simp_all add: field_simps)
qed

section \<open>Overflow\<close>

text \<open>
  The test of \<open>overflows\<close> on the bits of the integer part is the comparison with
  \<open>2\<^sup>1\<^sup>0\<^sup>2\<^sup>4\<close>. An exact result of at least \<open>2\<^sup>1\<^sup>0\<^sup>2\<^sup>4\<close> overflows; one of at most \<open>2\<^sup>1\<^sup>0\<^sup>2\<^sup>3\<close>
  does not.
\<close>

lemma bitlen_ge_iff:
  assumes "0 \<le> n"
  shows "int k + 1 \<le> bitlen n \<longleftrightarrow> 2 ^ k \<le> n"
proof (cases "n = 0")
  case True
  then show ?thesis by simp
next
  case False
  then have n: "0 < n" using assms by simp
  have b: "2 ^ nat (bitlen n - 1) \<le> n" "n < 2 ^ nat (bitlen n)"
    using bitlen_bounds [OF n] by simp_all
  have b1: "1 \<le> bitlen n" using n by (simp add: bitlen_alt_def)
  show ?thesis
  proof
    assume "int k + 1 \<le> bitlen n"
    then have "k \<le> nat (bitlen n - 1)" by simp
    then have "(2::int) ^ k \<le> 2 ^ nat (bitlen n - 1)" by (simp add: power_increasing)
    then show "2 ^ k \<le> n" using b(1) by linarith
  next
    assume "2 ^ k \<le> n"
    then have "(2::int) ^ k < 2 ^ nat (bitlen n)" using b(2) by linarith
    then have "k < nat (bitlen n)" by (simp add: power_strict_increasing_iff)
    then show "int k + 1 \<le> bitlen n" by simp
  qed
qed

lemma overflows_iff: "overflows y \<longleftrightarrow> 2 ^ 1024 \<le> \<bar>y\<bar>"
proof -
  have "overflows y \<longleftrightarrow> int 1024 + 1 \<le> bitlen \<lfloor>\<bar>y\<bar>\<rfloor>" by (simp add: overflows_def)
  also have "\<dots> \<longleftrightarrow> 2 ^ 1024 \<le> \<lfloor>\<bar>y\<bar>\<rfloor>" by (rule bitlen_ge_iff) simp
  also have "\<dots> \<longleftrightarrow> of_int (2 ^ 1024) \<le> \<bar>y\<bar>" by (simp only: le_floor_iff)
  also have "\<dots> \<longleftrightarrow> 2 ^ 1024 \<le> \<bar>y\<bar>" by simp
  finally show ?thesis .
qed

lemma fl_finite:
  assumes "\<bar>rnd x\<bar> < 2 ^ 1024"
  shows "fl x = Num (rnd x)"
  using assms by (simp add: fl_def Let_def overflows_iff)

lemma fl_unless_overflow:
  assumes "0 \<le> x"
  shows "unless_overflow (rnd x) (fl x)"
  using rnd_nonneg [OF assms]
  by (cases "rnd x = 0") (auto simp: fl_def Let_def unless_overflow_def overflows_iff)

lemma fl_small:
  assumes "0 \<le> x" and "x \<le> 2 ^ 1023"
  shows "fl x = Num (rnd x)"
proof -
  have "x / 2 ^ 53 \<le> x / 2" using assms(1) by (simp add: field_simps)
  moreover have "(1::rat) / 2 ^ 1075 \<le> 1" by simp
  ultimately have "rnd x \<le> x + x / 2 + 1" using rnd_abs_error [OF assms(1)] by linarith
  moreover have "(2::rat) ^ 1023 + 2 ^ 1023 / 2 + 1 < 2 ^ 1024" by simp
  ultimately have "rnd x < 2 ^ 1024" using assms(2) by linarith
  then have "\<bar>rnd x\<bar> < 2 ^ 1024" using rnd_nonneg [OF assms(1)] by simp
  then show ?thesis by (rule fl_finite)
qed

lemma ilog2_ge:
  assumes "2 ^ k \<le> x"
  shows "int k \<le> ilog2 x"
proof -
  have x1: "1 \<le> x" using assms one_le_power [of "2::rat" k] by linarith
  have "of_int (2 ^ k) \<le> x" using assms by simp
  then have "2 ^ k \<le> \<lfloor>x\<rfloor>" by (simp only: le_floor_iff)
  moreover have "0 \<le> \<lfloor>x\<rfloor>" using x1 by simp
  ultimately have "int k + 1 \<le> bitlen \<lfloor>x\<rfloor>" by (simp add: bitlen_ge_iff)
  then show ?thesis using x1 by (simp add: ilog2_def)
qed

lemma pow2_mono: "a \<le> b \<Longrightarrow> pow2 a \<le> pow2 b"
  by (simp add: pow2_powi power_int_increasing)

lemma rnd_ge_pow2:
  assumes "1 \<le> x"
  shows "pow2 (ilog2 x) \<le> rnd x"
proof -
  define k where "k = ilog2 x"
  define e where "e = k - 52"
  define m where "m = round_half_even (x / pow2 e)"
  have x0: "0 < x" using assms by simp
  have k0: "0 \<le> k" unfolding k_def using assms by (rule ilog2_nonneg)
  have emax: "max (ilog2 x - 52) (- 1074) = e" using k0 by (simp add: e_def k_def)
  have pk: "pow2 k \<le> x" unfolding k_def using x0 by (rule ilog2_le)
  have ke: "pow2 k = pow2 e * 2 ^ 52" using pow2_add [of e 52] by (simp add: e_def pow2_def)
  have fx: "rnd x = of_int m * pow2 e"
    using x0 emax by (simp add: rnd_def Let_def m_def)
  have "pow2 e * 2 ^ 52 \<le> x" using pk ke by simp
  then have "2 ^ 52 \<le> x / pow2 e" using pow2_pos [of e] by (simp add: field_simps)
  then have "(2::rat) ^ 52 - 1 / 2 \<le> of_int m"
    unfolding m_def using round_half_even_lower [of "x / pow2 e"] by linarith
  then have "(of_int (2 ^ 52 - 1) :: rat) < of_int m" by simp
  then have "2 ^ 52 - 1 < m" by (simp only: of_int_less_iff)
  then have "2 ^ 52 \<le> m" by simp
  then have "(of_int (2 ^ 52) :: rat) \<le> of_int m" by (simp only: of_int_le_iff)
  then have "(2::rat) ^ 52 \<le> of_int m" by simp
  then have "2 ^ 52 * pow2 e \<le> of_int m * pow2 e"
    using pow2_pos [of e] by (simp only: mult_le_cancel_right) simp
  then show ?thesis using fx ke by (simp add: k_def mult.commute)
qed

lemma fl_big:
  assumes "2 ^ 1024 \<le> x"
  shows "fl x = PosInf"
proof -
  have x1: "1 \<le> x" using assms one_le_power [of "2::rat" 1024] by linarith
  have "int 1024 \<le> ilog2 x" using assms by (rule ilog2_ge)
  then have "pow2 1024 \<le> pow2 (ilog2 x)" by (intro pow2_mono) simp
  then have "pow2 1024 \<le> rnd x" using rnd_ge_pow2 [OF x1] by linarith
  then have r: "2 ^ 1024 \<le> rnd x" by (simp add: pow2_def)
  then have "0 < rnd x" using zero_less_power [of "2::rat" 1024] by linarith
  then show ?thesis using r by (simp add: fl_def Let_def overflows_iff)
qed

text \<open>
  Values every binary64 implementation agrees on: the number nearest to 0.1; the sum
  \<^verbatim>\<open>0.1 + 0.2\<close>, which is one unit in the last place above the number nearest to 0.3; the
  tie \<open>2\<^sup>5\<^sup>3 + 1\<close>, rounded to the even significand; \<open>\<infinity> \<times> 0\<close> and \<open>\<infinity> - \<infinity>\<close>, which are
  \<open>NaN\<close>; and the product \<open>2\<^sup>1\<^sup>0\<^sup>2\<^sup>3 \<times> 2\<close>, which overflows.
\<close>

lemma fl_examples:
  "fl (1 / 10) = Num (3602879701896397 / 36028797018963968)"
  "js_add (fl (1 / 10)) (fl (2 / 10)) = Num (rnd (3 / 10) + 1 / 2 ^ 54)"
  "fl (2 ^ 53 + 1) = Num (2 ^ 53)"
  "js_mul PosInf (Num 0) = NaN"
  "js_sub PosInf PosInf = NaN"
  by code_simp+

lemma overflow_example: "js_mul (Num (2 ^ 1023)) (Num 2) = PosInf"
  using fl_big [of "2 ^ 1023 * 2"] by simp

section \<open>The operations on numbers that did not overflow\<close>

lemma js_ge_simps [simp]:
  "js_ge (Num a) (Num b) = (b \<le> a)"
  "js_ge PosInf (Num b)"
  "js_ge PosInf PosInf"
  "\<not> js_ge NaN n"
  "\<not> js_ge n NaN"
  "\<not> js_ge (Num a) PosInf"
  "js_ge (Num a) NegInf"
  by (auto simp: js_ge_def)


lemma js_ge_zero: "js_ge s (Num 0) \<longleftrightarrow> s = PosInf \<or> (\<exists>x. s = Num x \<and> 0 \<le> x)"
  by (cases s) (auto simp: js_ge_def)

lemma unless_overflow_Num [simp]: "unless_overflow r (Num r)"
  by (simp add: unless_overflow_def)

lemma unless_overflow_mul:
  assumes "unless_overflow r a" and "0 \<le> r" and "0 < c"
  shows "unless_overflow (rnd (r * c)) (js_mul a (Num c))"
proof (cases "a = PosInf")
  case True
  then show ?thesis using assms(3) by (simp add: unless_overflow_def)
next
  case False
  then have "a = Num r" using assms(1) by (simp add: unless_overflow_def)
  moreover have "0 \<le> r * c" using assms by simp
  ultimately show ?thesis using fl_unless_overflow by simp
qed

lemma unless_overflow_div:
  assumes "unless_overflow r a" and "0 \<le> r" and "0 < c"
  shows "unless_overflow (rnd (r / c)) (js_div a (Num c))"
proof (cases "a = PosInf")
  case True
  then show ?thesis using assms(3) by (simp add: unless_overflow_def)
next
  case False
  then have "a = Num r" using assms(1) by (simp add: unless_overflow_def)
  moreover have "0 \<le> r / c" using assms by simp
  ultimately show ?thesis using fl_unless_overflow assms(3) by simp
qed

lemma unless_overflow_add:
  assumes "unless_overflow r a" and "unless_overflow q b" and "0 \<le> r" and "0 \<le> q"
  shows "unless_overflow (rnd (r + q)) (js_add a b)"
proof -
  have "0 \<le> r + q" using assms by simp
  then have "unless_overflow (rnd (r + q)) (fl (r + q))" by (rule fl_unless_overflow)
  then show ?thesis using assms(1,2) by (auto simp: unless_overflow_def)
qed

lemma unless_overflow_round:
  assumes "unless_overflow r a"
  shows "unless_overflow (of_int \<lfloor>r + 1 / 2\<rfloor>) (Math_round a)"
  using assms by (auto simp: unless_overflow_def)

lemma unless_overflow_ge:
  assumes "unless_overflow r n" and "x \<le> r"
  shows "js_ge n (Num x)"
  using assms by (auto simp: unless_overflow_def)

section \<open>Service fee and order total on finite values\<close>

lemma rnd_lower_q:
  assumes "1 \<le> x"
  shows "999999 * x \<le> 1000000 * rnd x"
proof -
  have "x / 2 ^ 53 \<le> x / 1000000" using assms by (simp add: field_simps)
  then show ?thesis using rnd_lower [OF assms] by (simp add: field_simps)
qed

lemma rnd_upper_coarse:
  assumes "0 \<le> x"
  shows "rnd x \<le> 2 * x + 1"
proof -
  have "x / 2 ^ 53 \<le> x" using assms by (simp add: field_simps)
  moreover have "(1::rat) / 2 ^ 1075 \<le> 1" by simp
  ultimately show ?thesis using rnd_abs_error [OF assms] by linarith
qed

lemma percentage_value: "percentage = 5764607523034235 / 288230376151711744"
  by code_simp

lemma SERVICE_FEE_PERCENTAGE_value: "SERVICE_FEE_PERCENTAGE = Num percentage"
  by code_simp

lemma floor_half_lower: "x - 1 / 2 \<le> of_int \<lfloor>x + 1 / 2\<rfloor>" for x :: rat
  by linarith

lemma floor_half_upper: "of_int \<lfloor>x + 1 / 2\<rfloor> \<le> x + 1 / 2" for x :: rat
  by linarith

lemma floor_half_nonneg: "0 \<le> x \<Longrightarrow> (0::rat) \<le> of_int \<lfloor>x + 1 / 2\<rfloor>" for x :: rat
  by simp

lemma cents_nonneg:
  assumes "0 \<le> x"
  shows "0 \<le> cents x"
proof -
  have "0 \<le> rnd (x * 100)" using assms by (intro rnd_nonneg) simp
  then have "(0::rat) \<le> of_int \<lfloor>rnd (x * 100) + 1 / 2\<rfloor>" by (rule floor_half_nonneg)
  then show ?thesis unfolding cents_def by (intro rnd_nonneg) simp
qed

lemma serviceFee_finite_nonneg:
  assumes "0 \<le> s"
  shows "0 \<le> serviceFee_finite s"
proof -
  have "0 \<le> s * percentage" using assms by (simp add: percentage_value)
  then have "0 \<le> rnd (s * percentage)" by (rule rnd_nonneg)
  then show ?thesis unfolding serviceFee_finite_def by (rule cents_nonneg)
qed

lemma serviceFee_finite_lower:
  assumes "64 \<le> s"
  shows "19 * s \<le> 1000 * serviceFee_finite s"
proof -
  define c where "c = percentage"
  define p1 where "p1 = rnd (s * c)"
  define p2 where "p2 = rnd (p1 * 100)"
  define r :: rat where "r = of_int \<lfloor>p2 + 1 / 2\<rfloor>"
  have x1: "s \<le> 50 * (s * c)"
    using assms by (simp add: c_def percentage_value)
  then have "1 \<le> s * c" using assms by linarith
  then have "999999 * (s * c) \<le> 1000000 * p1"
    unfolding p1_def by (rule rnd_lower_q)
  then have b1: "999999 * s \<le> 50000000 * p1" using x1 by linarith
  then have "1 \<le> p1 * 100" using assms by linarith
  then have "999999 * (p1 * 100) \<le> 1000000 * p2"
    unfolding p2_def by (rule rnd_lower_q)
  then have b2: "1999996 * s \<le> 1000000 * p2" using b1 assms by linarith
  have "p2 - 1 / 2 \<le> r" unfolding r_def by (rule floor_half_lower)
  then have b3: "1999996 * s - 500000 \<le> 1000000 * r" using b2 by linarith
  then have "1 \<le> r / 100" using assms by linarith
  then have "999999 * (r / 100) \<le> 1000000 * rnd (r / 100)" by (rule rnd_lower_q)
  then have "19 * s \<le> 1000 * rnd (r / 100)" using b3 assms by linarith
  then show ?thesis
    by (simp add: serviceFee_finite_def cents_def r_def p2_def p1_def c_def)
qed

lemma cents_lower:
  assumes "2 \<le> x"
  shows "999998 * x - 10000 \<le> 1000000 * cents x"
proof -
  define m where "m = rnd (x * 100)"
  define k :: rat where "k = of_int \<lfloor>m + 1 / 2\<rfloor>"
  have "1 \<le> x * 100" using assms by linarith
  then have "999999 * (x * 100) \<le> 1000000 * m" unfolding m_def by (rule rnd_lower_q)
  moreover have "m - 1 / 2 \<le> k" unfolding k_def by (rule floor_half_lower)
  ultimately have b: "999999 * (x * 100) - 500000 \<le> 1000000 * k" by linarith
  then have "1 \<le> k / 100" using assms by linarith
  then have "999999 * (k / 100) \<le> 1000000 * rnd (k / 100)" by (rule rnd_lower_q)
  then have "999998 * x - 10000 \<le> 1000000 * rnd (k / 100)" using b assms by linarith
  then show ?thesis by (simp add: cents_def k_def m_def)
qed

lemma total_finite_ge:
  assumes s: "0 \<le> s" and d: "4 \<le> d"
  shows "s \<le> total_finite s (serviceFee_finite s) d"
proof -
  define fee where "fee = serviceFee_finite s"
  define a1 where "a1 = rnd (s + fee)"
  define a2 where "a2 = rnd (a1 + d)"
  have fee0: "0 \<le> fee" unfolding fee_def using s by (rule serviceFee_finite_nonneg)
  have a10: "0 \<le> a1" unfolding a1_def using s fee0 by (intro rnd_nonneg) simp
  have "1 \<le> a1 + d" using a10 d by linarith
  then have "999999 * (a1 + d) \<le> 1000000 * a2"
    unfolding a2_def by (rule rnd_lower_q)
  then have a2l: "999999 * a1 + 999999 * d \<le> 1000000 * a2" by (simp add: algebra_simps)
  then have a22: "2 \<le> a2" using a10 d by linarith
  have t: "999998 * a2 - 10000 \<le> 1000000 * cents a2"
    using a22 by (rule cents_lower)
  have "1000000 * s \<le> 999998 * a2 - 10000"
  proof (cases "64 \<le> s")
    case True
    have "19 * s \<le> 1000 * fee" unfolding fee_def using True by (rule serviceFee_finite_lower)
    moreover have "1 \<le> s + fee" using True fee0 by linarith
    then have "999999 * (s + fee) \<le> 1000000 * a1"
      unfolding a1_def by (rule rnd_lower_q)
    then have "999999 * s + 999999 * fee \<le> 1000000 * a1" by (simp add: algebra_simps)
    ultimately show ?thesis using a2l d True by linarith
  next
    case False
    have "s - 1 \<le> a1"
    proof (cases "1 \<le> s + fee")
      case True
      then have "999999 * (s + fee) \<le> 1000000 * a1"
        unfolding a1_def by (rule rnd_lower_q)
      then have "999999 * s + 999999 * fee \<le> 1000000 * a1" by (simp add: algebra_simps)
      then show ?thesis using fee0 s False by linarith
    next
      case False
      then show ?thesis using a10 fee0 by linarith
    qed
    then show ?thesis using a2l d False s by linarith
  qed
  then show ?thesis using t by (simp add: total_finite_def a2_def a1_def fee_def)
qed

text \<open>
  The total is within half a cent of the exact sum, up to the rounding errors of the
  three operations before \<^verbatim>\<open>Math.round\<close> and of the division after it.
\<close>

lemma total_finite_near:
  assumes s: "0 \<le> s" and f: "0 \<le> fee" and d: "4 \<le> d"
  shows "\<bar>total_finite s fee d - (s + fee + d)\<bar>
           \<le> 1 / 200 + (s + fee + d) / 100000000000000"
proof -
  define a1 where "a1 = rnd (s + fee)"
  define a2 where "a2 = rnd (a1 + d)"
  define m where "m = rnd (a2 * 100)"
  define k :: rat where "k = of_int \<lfloor>m + 1 / 2\<rfloor>"
  define t where "t = rnd (k / 100)"
  define x0 where "x0 = s + fee"
  define x1 where "x1 = a1 + d"
  define x2 where "x2 = a2 * 100"
  define x3 where "x3 = k / 100"
  have x00: "0 \<le> x0" using s f by (simp add: x0_def)
  have e1: "999999999999999 * x0 - 1 / 10 \<le> 1000000000000000 * a1"
    "1000000000000000 * a1 \<le> 1000000000000001 * x0 + 1 / 10"
    unfolding a1_def x0_def [symmetric] using x00 by (rule rnd_near0)+
  have a10: "0 \<le> a1" unfolding a1_def using s f by (intro rnd_nonneg) simp
  have x11: "1 \<le> x1" using a10 d by (simp add: x1_def)
  have e2: "999999999999999 * x1 \<le> 1000000000000000 * a2"
    "1000000000000000 * a2 \<le> 1000000000000001 * x1"
    unfolding a2_def x1_def [symmetric] using x11 by (rule rnd_near)+
  have a22: "2 \<le> a2" using e2 a10 d x1_def by linarith
  then have x21: "1 \<le> x2" by (simp add: x2_def)
  have e3: "999999999999999 * x2 \<le> 1000000000000000 * m"
    "1000000000000000 * m \<le> 1000000000000001 * x2"
    unfolding m_def x2_def [symmetric] using x21 by (rule rnd_near)+
  have e4: "m - 1 / 2 \<le> k" "k \<le> m + 1 / 2"
    unfolding k_def by (rule floor_half_lower, rule floor_half_upper)
  have k3: "k = 100 * x3" by (simp add: x3_def)
  have x31: "1 \<le> x3" using e4 e3 a22 k3 x2_def by linarith
  have e5: "999999999999999 * x3 \<le> 1000000000000000 * t"
    "1000000000000000 * t \<le> 1000000000000001 * x3"
    unfolding t_def x3_def [symmetric] using x31 by (rule rnd_near)+
  define X where "X = s + fee + d"
  have X: "X = x0 + d" by (simp add: X_def x0_def)
  have "100000000000000 * t \<le> 500000000000 + 100000000000001 * X"
    using e1 e2 e3 e4 e5 x00 d x1_def x2_def k3 X by linarith
  moreover have "99999999999999 * X \<le> 500000000000 + 100000000000000 * t"
    using e1 e2 e3 e4 e5 x00 d x1_def x2_def k3 X by linarith
  ultimately have "\<bar>t - X\<bar> \<le> 1 / 200 + X / 100000000000000"
    by linarith
  then have "\<bar>t - (s + fee + d)\<bar> \<le> 1 / 200 + (s + fee + d) / 100000000000000"
    by (simp add: X_def)
  then show ?thesis by (simp add: total_finite_def cents_def t_def k_def m_def a2_def a1_def)
qed

text \<open>
  The service fee is within half a cent of two percent of the subtotal, up to the
  rounding errors of the two multiplications and of the division.
\<close>

lemma serviceFee_finite_near:
  assumes s: "0 \<le> s"
  shows "\<bar>serviceFee_finite s - s * (2 / 100)\<bar>
           \<le> 1 / 200 + s / 100000000000000 + 1 / 100000000000000"
proof -
  define c where "c = percentage"
  define x1 where "x1 = s * c"
  define p1 where "p1 = rnd (s * c)"
  define x2 where "x2 = p1 * 100"
  define p2 where "p2 = rnd (p1 * 100)"
  define k :: rat where "k = of_int \<lfloor>p2 + 1 / 2\<rfloor>"
  define x3 where "x3 = k / 100"
  define t where "t = rnd (k / 100)"
  have c: "s \<le> 50 * x1" "50000000000000000 * x1 \<le> 1000000000000001 * s"
    using s by (simp_all add: x1_def c_def percentage_value)
  have x10: "0 \<le> x1" using c s by linarith
  have e1: "999999999999999 * x1 - 1 / 10 \<le> 1000000000000000 * p1"
    "1000000000000000 * p1 \<le> 1000000000000001 * x1 + 1 / 10"
    unfolding p1_def x1_def [symmetric] using x10 by (rule rnd_near0)+
  have p10: "0 \<le> p1" unfolding p1_def x1_def [symmetric] using x10 by (rule rnd_nonneg)
  then have x20: "0 \<le> x2" by (simp add: x2_def)
  have e2: "999999999999999 * x2 - 1 / 10 \<le> 1000000000000000 * p2"
    "1000000000000000 * p2 \<le> 1000000000000001 * x2 + 1 / 10"
    unfolding p2_def x2_def [symmetric] using x20 by (rule rnd_near0)+
  have p20: "0 \<le> p2" unfolding p2_def x2_def [symmetric] using x20 by (rule rnd_nonneg)
  have e3: "p2 - 1 / 2 \<le> k" "k \<le> p2 + 1 / 2"
    unfolding k_def by (rule floor_half_lower, rule floor_half_upper)
  have "0 \<le> k" unfolding k_def using p20 by (rule floor_half_nonneg)
  then have x30: "0 \<le> x3" by (simp add: x3_def)
  have e4: "999999999999999 * x3 - 1 / 10 \<le> 1000000000000000 * t"
    "1000000000000000 * t \<le> 1000000000000001 * x3 + 1 / 10"
    unfolding t_def x3_def [symmetric] using x30 by (rule rnd_near0)+
  have k3: "k = 100 * x3" by (simp add: x3_def)
  define X where "X = s * (2 / 100)"
  have X: "50 * X = s" by (simp add: X_def)
  have "t - X \<le> 1 / 200 + s / 100000000000000 + 1 / 100000000000000"
    using c e1 e2 e3 e4 k3 X x2_def s by linarith
  moreover have "X - t \<le> 1 / 200 + s / 100000000000000 + 1 / 100000000000000"
    using c e1 e2 e3 e4 k3 X x2_def s by linarith
  ultimately have "\<bar>t - X\<bar> \<le> 1 / 200 + s / 100000000000000 + 1 / 100000000000000"
    by linarith
  then show ?thesis
    by (simp add: serviceFee_finite_def cents_def t_def k_def p2_def p1_def c_def X_def)
qed

section \<open>Service fee and order total in binary64\<close>

text \<open>
  The operations of the code compute the finite values above unless one of them
  overflows, and then the result is \<open>+\<infinity>\<close>. Up to \<open>2\<^sup>1\<^sup>0\<^sup>1\<^sup>0\<close> nothing overflows.
\<close>

lemma cents_unless_overflow:
  assumes "unless_overflow r a" and "0 \<le> r"
  shows "unless_overflow (cents r) (js_div (Math_round (js_mul a (Num 100))) (Num 100))"
proof -
  have 1: "unless_overflow (rnd (r * 100)) (js_mul a (Num 100))"
    using assms by (intro unless_overflow_mul) simp_all
  have 2: "unless_overflow (of_int \<lfloor>rnd (r * 100) + 1 / 2\<rfloor>) (Math_round (js_mul a (Num 100)))"
    using 1 by (rule unless_overflow_round)
  have "0 \<le> rnd (r * 100)" using assms(2) by (intro rnd_nonneg) simp
  then have "(0::rat) \<le> of_int \<lfloor>rnd (r * 100) + 1 / 2\<rfloor>" by (rule floor_half_nonneg)
  then show ?thesis unfolding cents_def using 2 by (intro unless_overflow_div) simp_all
qed

lemma calculateServiceFee_unless_overflow:
  assumes "unless_overflow x s" and "0 \<le> x"
  shows "unless_overflow (serviceFee_finite x) (calculateServiceFee s)"
proof -
  have c: "0 < percentage" by (simp add: percentage_value)
  have 1: "unless_overflow (rnd (x * percentage)) (js_mul s (Num (percentage)))"
    using assms c by (intro unless_overflow_mul)
  have "0 \<le> x * percentage" using assms(2) c by simp
  then have "0 \<le> rnd (x * percentage)" by (rule rnd_nonneg)
  then show ?thesis
    unfolding calculateServiceFee_def serviceFee_finite_def SERVICE_FEE_PERCENTAGE_value
    using 1 by (intro cents_unless_overflow)
qed

lemma total_unless_overflow:
  assumes "unless_overflow x s" and "0 \<le> x" and "0 \<le> d"
  shows "unless_overflow (total_finite x (serviceFee_finite x) d)
     (js_div (Math_round (js_mul (js_add (js_add s (calculateServiceFee s)) (Num d)) (Num 100)))
        (Num 100))"
proof -
  have f: "unless_overflow (serviceFee_finite x) (calculateServiceFee s)"
    using assms(1,2) by (rule calculateServiceFee_unless_overflow)
  have f0: "0 \<le> serviceFee_finite x" using assms(2) by (rule serviceFee_finite_nonneg)
  have 1: "unless_overflow (rnd (x + serviceFee_finite x)) (js_add s (calculateServiceFee s))"
    using assms(1) f assms(2) f0 by (rule unless_overflow_add)
  have a0: "0 \<le> rnd (x + serviceFee_finite x)" using assms(2) f0 by (intro rnd_nonneg) simp
  have 2: "unless_overflow (rnd (rnd (x + serviceFee_finite x) + d))
       (js_add (js_add s (calculateServiceFee s)) (Num d))"
    using 1 unless_overflow_Num a0 assms(3) by (rule unless_overflow_add)
  have "0 \<le> rnd (rnd (x + serviceFee_finite x) + d)"
    using a0 assms(3) by (intro rnd_nonneg) simp
  then show ?thesis unfolding total_finite_def using 2 by (intro cents_unless_overflow)
qed

lemma cents_finite:
  assumes "0 \<le> r" and "r \<le> 2 ^ 1016"
  shows "js_div (Math_round (js_mul (Num r) (Num 100))) (Num 100) = Num (cents r)"
proof -
  define m where "m = rnd (r * 100)"
  define k :: rat where "k = of_int \<lfloor>m + 1 / 2\<rfloor>"
  have r100: "0 \<le> r * 100" using assms(1) by simp
  have "r * 100 \<le> 2 ^ 1016 * 100" using assms(2) by simp
  also have "\<dots> \<le> (2::rat) ^ 1023" by simp
  finally have 1: "fl (r * 100) = Num m" unfolding m_def using r100 by (intro fl_small)
  have m0: "0 \<le> m" unfolding m_def using r100 by (rule rnd_nonneg)
  have "m \<le> 2 * (r * 100) + 1" unfolding m_def using r100 by (rule rnd_upper_coarse)
  then have mu: "m \<le> 200 * 2 ^ 1016 + 1" using assms(2) by linarith
  have k0: "0 \<le> k" unfolding k_def using m0 by (rule floor_half_nonneg)
  have "k \<le> m + 1 / 2" unfolding k_def by (rule floor_half_upper)
  then have "k / 100 \<le> (200 * 2 ^ 1016 + 2) / 100" using mu by (simp add: field_simps)
  also have "\<dots> \<le> (2::rat) ^ 1023" by simp
  finally have 2: "fl (k / 100) = Num (rnd (k / 100))" using k0 by (intro fl_small) simp_all
  show ?thesis using 1 2 by (simp add: cents_def k_def m_def)
qed

lemma serviceFee_finite_upper:
  assumes "0 \<le> x"
  shows "5 * serviceFee_finite x \<le> x + 35"
proof -
  define p1 where "p1 = rnd (x * percentage)"
  define m where "m = rnd (p1 * 100)"
  define k :: rat where "k = of_int \<lfloor>m + 1 / 2\<rfloor>"
  have c: "0 \<le> x * percentage" "40 * (x * percentage) \<le> x"
    using assms by (simp_all add: percentage_value)
  have p10: "0 \<le> p1" unfolding p1_def using c(1) by (rule rnd_nonneg)
  have "p1 \<le> 2 * (x * percentage) + 1" unfolding p1_def using c(1) by (rule rnd_upper_coarse)
  then have p1u: "20 * p1 \<le> x + 20" using c(2) by linarith
  have m0: "0 \<le> m" unfolding m_def using p10 by (intro rnd_nonneg) simp
  have "m \<le> 2 * (p1 * 100) + 1" unfolding m_def using p10 by (intro rnd_upper_coarse) simp
  then have mu: "m \<le> 10 * x + 201" using p1u by linarith
  have k0: "0 \<le> k" unfolding k_def using m0 by (rule floor_half_nonneg)
  have "k \<le> m + 1 / 2" unfolding k_def by (rule floor_half_upper)
  then have ku: "10 * (k / 100) \<le> x + 30" using mu by (simp add: field_simps)
  have "rnd (k / 100) \<le> 2 * (k / 100) + 1" using k0 by (intro rnd_upper_coarse) simp
  then have "5 * rnd (k / 100) \<le> x + 35" using ku by linarith
  then show ?thesis by (simp add: serviceFee_finite_def cents_def k_def m_def p1_def)
qed

lemma calculateServiceFee_finite:
  assumes "0 \<le> x" and "x \<le> 2 ^ 1018"
  shows "calculateServiceFee (Num x) = Num (serviceFee_finite x)"
proof -
  define p1 where "p1 = rnd (x * percentage)"
  have c: "0 \<le> x * percentage" "40 * (x * percentage) \<le> x"
    using assms(1) by (simp_all add: percentage_value)
  have pw: "(2::rat) ^ 1018 \<le> 2 ^ 1023" "(2::rat) ^ 1018 + 20 \<le> 20 * 2 ^ 1016" by simp_all
  have "x * percentage \<le> 2 ^ 1023" using c(2) assms pw(1) by linarith
  then have 1: "fl (x * percentage) = Num p1" unfolding p1_def using c(1) by (intro fl_small)
  have p10: "0 \<le> p1" unfolding p1_def using c(1) by (rule rnd_nonneg)
  have "p1 \<le> 2 * (x * percentage) + 1" unfolding p1_def using c(1) by (rule rnd_upper_coarse)
  then have "20 * p1 \<le> 2 ^ 1018 + 20" using c(2) assms(2) by linarith
  then have "p1 \<le> 2 ^ 1016" using pw(2) by linarith
  then have "js_div (Math_round (js_mul (Num p1) (Num 100))) (Num 100) = Num (cents p1)"
    using p10 by (intro cents_finite)
  then show ?thesis
    using 1 by (simp add: calculateServiceFee_def SERVICE_FEE_PERCENTAGE_value
        serviceFee_finite_def p1_def)
qed

lemma total_finite_eq:
  assumes "0 \<le> x" and "x \<le> 2 ^ 1000" and "0 \<le> f" and "5 * f \<le> x + 35"
    and "0 \<le> d" and "d \<le> 15000"
  shows "js_div (Math_round (js_mul (js_add (js_add (Num x) (Num f)) (Num d)) (Num 100))) (Num 100)
           = Num (total_finite x f d)"
proof -
  define a1 where "a1 = rnd (x + f)"
  define a2 where "a2 = rnd (a1 + d)"
  have xf: "0 \<le> x + f" using assms(1,3) by simp
  have pw: "2 * (2::rat) ^ 1000 + 7 \<le> 2 ^ 1002" "(2::rat) ^ 1002 \<le> 2 ^ 1023"
    "2 * (2::rat) ^ 1002 + 1 + 15000 \<le> 2 ^ 1004" "(2::rat) ^ 1004 \<le> 2 ^ 1023"
    "2 * (2::rat) ^ 1004 + 1 \<le> 2 ^ 1016"
    by simp_all
  have "x + f \<le> 2 * 2 ^ 1000 + 7" using assms(1,2,4) by linarith
  then have xfu: "x + f \<le> 2 ^ 1002" using pw(1) by linarith
  then have "x + f \<le> 2 ^ 1023" using pw(2) by linarith
  then have 1: "fl (x + f) = Num a1" unfolding a1_def using xf by (intro fl_small)
  have a10: "0 \<le> a1" unfolding a1_def using xf by (rule rnd_nonneg)
  have "a1 \<le> 2 * (x + f) + 1" unfolding a1_def using xf by (rule rnd_upper_coarse)
  then have "a1 \<le> 2 * x + 2 * f + 1" by (simp add: algebra_simps)
  then have "a1 + d \<le> 2 * 2 ^ 1002 + 1 + 15000" using xfu assms(6) by linarith
  then have a1d: "a1 + d \<le> 2 ^ 1004" using pw(3) by linarith
  then have "a1 + d \<le> 2 ^ 1023" using pw(4) by linarith
  moreover have ad0: "0 \<le> a1 + d" using a10 assms(5) by simp
  ultimately have 2: "fl (a1 + d) = Num a2" unfolding a2_def by (intro fl_small)
  have a20: "0 \<le> a2" unfolding a2_def using ad0 by (rule rnd_nonneg)
  have "a2 \<le> 2 * (a1 + d) + 1" unfolding a2_def using ad0 by (rule rnd_upper_coarse)
  then have "a2 \<le> 2 * a1 + 2 * d + 1" by (simp add: algebra_simps)
  then have "a2 \<le> 2 * 2 ^ 1004 + 1" using a1d by linarith
  then have "a2 \<le> 2 ^ 1016" using pw(5) by linarith
  then have "js_div (Math_round (js_mul (Num a2) (Num 100))) (Num 100) = Num (cents a2)"
    using a20 by (intro cents_finite)
  then show ?thesis using 1 2 by (simp add: total_finite_def a2_def a1_def)
qed

text \<open>
  Two overflows. The service fee of \<open>3 \<times> 2\<^sup>1\<^sup>0\<^sup>2\<^sup>2\<close> is infinite: two percent of it is
  finite, and a hundred times that is not. For the subtotal \<open>2\<^sup>1\<^sup>0\<^sup>1\<^sup>8\<close> the service fee
  and the sum with the delivery fee 3500 are finite, the sum below \<open>2\<^sup>1\<^sup>0\<^sup>1\<^sup>9\<close>, and a
  hundred times the sum is not: the total is infinite.
\<close>

lemma rnd_upper_q:
  assumes "1 \<le> x"
  shows "1000000 * rnd x \<le> 1000001 * x"
proof -
  have "x / 2 ^ 53 \<le> x / 1000000" using assms by (simp add: field_simps)
  then show ?thesis using rnd_upper [OF assms] by (simp add: field_simps)
qed

lemma calculateServiceFee_overflow: "calculateServiceFee (Num (3 * 2 ^ 1022)) = PosInf"
proof -
  define x :: rat where "x = 3 * 2 ^ 1022"
  define p1 where "p1 = rnd (x * percentage)"
  have x: "0 \<le> x" "x \<le> 4 * 2 ^ 1022" "3 * 2 ^ 1022 \<le> x" by (simp_all add: x_def)
  have pw: "(2::rat) ^ 1023 = 2 * 2 ^ 1022" "(2::rat) ^ 1024 = 4 * 2 ^ 1022" "(50::rat) \<le> 2 ^ 1022"
    by simp_all
  have c: "0 \<le> x * percentage" "40 * (x * percentage) \<le> x" "x \<le> 50 * (x * percentage)"
    using x(1) by (simp_all add: percentage_value)
  have "x * percentage \<le> 2 ^ 1023" using c(2) x pw by linarith
  then have 1: "fl (x * percentage) = Num p1" unfolding p1_def using c(1) by (intro fl_small)
  have "50 \<le> x" using x(3) pw(3) by linarith
  then have "1 \<le> x * percentage" using c(3) by linarith
  then have "999999 * (x * percentage) \<le> 1000000 * p1" unfolding p1_def by (rule rnd_lower_q)
  then have "2 ^ 1024 \<le> p1 * 100" using c(3) x(3) pw by linarith
  then have "fl (p1 * 100) = PosInf" by (rule fl_big)
  then show ?thesis
    using 1 by (simp add: calculateServiceFee_def SERVICE_FEE_PERCENTAGE_value x_def p1_def)
qed

lemma total_overflow:
  fixes x :: rat
  defines "x \<equiv> 2 ^ 1018"
  shows "js_div (Math_round (js_mul
           (js_add (js_add (Num x) (calculateServiceFee (Num x))) (Num 3500)) (Num 100))) (Num 100)
         = PosInf"
    and "js_lt (js_add (js_add (Num x) (calculateServiceFee (Num x))) (Num 3500)) (Num (2 ^ 1019))"
proof -
  define f where "f = serviceFee_finite x"
  define a1 where "a1 = rnd (x + f)"
  define a2 where "a2 = rnd (a1 + 3500)"
  have x: "0 \<le> x" "x \<le> 2 ^ 1018" "2 ^ 1018 \<le> x" by (simp_all add: x_def)
  have pw: "(2::rat) ^ 1023 = 32 * 2 ^ 1018" "(2::rat) ^ 1024 = 64 * 2 ^ 1018"
    "(2::rat) ^ 1019 = 2 * 2 ^ 1018" "(10000000000::rat) \<le> 2 ^ 1018"
    by simp_all
  have fee: "calculateServiceFee (Num x) = Num f" unfolding f_def using x(1,2) by (rule calculateServiceFee_finite)
  have f0: "0 \<le> f" unfolding f_def using x(1) by (rule serviceFee_finite_nonneg)
  have fu: "5 * f \<le> x + 35" unfolding f_def using x(1) by (rule serviceFee_finite_upper)
  have xf0: "0 \<le> x + f" using x(1) f0 by simp
  have "x + f \<le> 2 ^ 1023" using fu x(2) pw by linarith
  then have 1: "fl (x + f) = Num a1" unfolding a1_def using xf0 by (intro fl_small)
  have xf1: "1 \<le> x + f" using x(3) f0 pw by linarith
  have "999999 * (x + f) \<le> 1000000 * a1" "1000000 * a1 \<le> 1000001 * (x + f)"
    unfolding a1_def using xf1 by (rule rnd_lower_q, rule rnd_upper_q)
  then have a1: "999999 * x + 999999 * f \<le> 1000000 * a1" "1000000 * a1 \<le> 1000001 * x + 1000001 * f"
    by (simp_all add: algebra_simps)
  have a10: "0 \<le> a1 + 3500" "1 \<le> a1 + 3500" using a1(1) x(1) f0 by linarith+
  have "a1 + 3500 \<le> 2 ^ 1023" using a1(2) fu x(2) pw by linarith
  then have 2: "fl (a1 + 3500) = Num a2" unfolding a2_def using a10(1) by (intro fl_small)
  have "999999 * (a1 + 3500) \<le> 1000000 * a2" "1000000 * a2 \<le> 1000001 * (a1 + 3500)"
    unfolding a2_def using a10(2) by (rule rnd_lower_q, rule rnd_upper_q)
  then have a2: "999999 * a1 \<le> 1000000 * a2" "1000000 * a2 \<le> 1000001 * a1 + 3500003500"
    by (simp_all add: algebra_simps)
  have "2 ^ 1024 \<le> a2 * 100" using a2(1) a1(1) x(3) f0 pw by linarith
  then have 3: "fl (a2 * 100) = PosInf" by (rule fl_big)
  have 4: "a2 < 2 ^ 1019" using a2(2) a1(2) fu x(2,3) pw by linarith
  show "js_div (Math_round (js_mul
           (js_add (js_add (Num x) (calculateServiceFee (Num x))) (Num 3500)) (Num 100))) (Num 100)
         = PosInf"
    using fee 1 2 3 by (simp add: a1_def a2_def)
  show "js_lt (js_add (js_add (Num x) (calculateServiceFee (Num x))) (Num 3500)) (Num (2 ^ 1019))"
    using fee 1 2 4 by (simp add: a1_def a2_def)
qed

section \<open>Delivery fee tiers\<close>

text \<open>
  Every row of the table has fees between 4 and 15000. No name of an inherited member is
  a key of the table, so that the row of a currency is missing exactly for these names.
\<close>

lemma NGN_row:
  "DELIVERY_FEES_BY_CURRENCY ''NGN''
     = Some \<lparr>local = Num 3500, national = Num 5000, international = Num 15000\<rparr>"
  by (simp add: DELIVERY_FEES_BY_CURRENCY_def)

lemma rows_range:
  assumes "DELIVERY_FEES_BY_CURRENCY c = Some f"
  shows "\<exists>l n i. f = \<lparr>local = Num l, national = Num n, international = Num i\<rparr>
           \<and> 4 \<le> l \<and> l \<le> 15000 \<and> 4 \<le> n \<and> n \<le> 15000 \<and> 4 \<le> i \<and> i \<le> 15000"
proof -
  have "(c, f) \<in> set
     [(''NGN'', \<lparr>local = Num 3500, national = Num 5000, international = Num 15000\<rparr>),
      (''USD'', \<lparr>local = Num 5, national = Num 8, international = Num 25\<rparr>),
      (''EUR'', \<lparr>local = Num 4, national = Num 7, international = Num 20\<rparr>),
      (''GBP'', \<lparr>local = Num 4, national = Num 6, international = Num 18\<rparr>),
      (''CAD'', \<lparr>local = Num 6, national = Num 9, international = Num 28\<rparr>),
      (''AUD'', \<lparr>local = Num 6, national = Num 9, international = Num 30\<rparr>),
      (''JPY'', \<lparr>local = Num 500, national = Num 800, international = Num 2500\<rparr>),
      (''CHF'', \<lparr>local = Num 4, national = Num 7, international = Num 20\<rparr>),
      (''CNY'', \<lparr>local = Num 30, national = Num 50, international = Num 150\<rparr>),
      (''INR'', \<lparr>local = Num 300, national = Num 500, international = Num 1500\<rparr>),
      (''ZAR'', \<lparr>local = Num 80, national = Num 120, international = Num 400\<rparr>)]"
    using assms unfolding DELIVERY_FEES_BY_CURRENCY_def by (rule map_of_SomeD)
  then show ?thesis
    by (simp only: set_simps insert_iff empty_iff prod.inject) (elim disjE conjE; simp)
qed

lemma inherited_not_listed:
  assumes "inherited c"
  shows "DELIVERY_FEES_BY_CURRENCY c = None"
proof -
  have "\<forall>k \<in> set Object_prototype_members. DELIVERY_FEES_BY_CURRENCY k = None"
    by (simp add: Object_prototype_members_def DELIVERY_FEES_BY_CURRENCY_def)
  then show ?thesis using assms by (simp add: inherited_def)
qed

lemma fees_for_inherited: "inherited c \<Longrightarrow> fees_for c = None"
  by (simp add: fees_for_def inherited_not_listed)

lemma fees_for_row:
  assumes "\<not> inherited c"
  shows "\<exists>f. fees_for c = Some f
           \<and> (DELIVERY_FEES_BY_CURRENCY c = Some f
              \<or> DELIVERY_FEES_BY_CURRENCY c = None \<and> DELIVERY_FEES_BY_CURRENCY ''NGN'' = Some f)"
  using assms by (cases "DELIVERY_FEES_BY_CURRENCY c") (simp_all add: fees_for_def NGN_row)

lemma fees_for_range:
  assumes "fees_for c = Some f"
  shows "\<exists>l n i. f = \<lparr>local = Num l, national = Num n, international = Num i\<rparr>
           \<and> 4 \<le> l \<and> l \<le> 15000 \<and> 4 \<le> n \<and> n \<le> 15000 \<and> 4 \<le> i \<and> i \<le> 15000"
proof (cases "DELIVERY_FEES_BY_CURRENCY c")
  case None
  then have "DELIVERY_FEES_BY_CURRENCY ''NGN'' = Some f"
    using assms by (simp add: fees_for_def split: if_splits)
  then show ?thesis by (rule rows_range)
next
  case (Some g)
  then have "DELIVERY_FEES_BY_CURRENCY c = Some f" using assms by (simp add: fees_for_def)
  then show ?thesis by (rule rows_range)
qed

lemma calculateDeliveryFee_tier:
  "calculateDeliveryFee U loc c \<in>
     {map_option local (fees_for c), map_option national (fees_for c),
      map_option international (fees_for c)}"
  by (simp add: calculateDeliveryFee_def Let_def split: option.split)

lemma calculateDeliveryFee_inherited:
  "inherited c \<Longrightarrow> calculateDeliveryFee U loc c = None"
  using calculateDeliveryFee_tier [of U loc c] by (simp add: fees_for_inherited)

lemma calculateDeliveryFee_range:
  assumes "\<not> inherited c"
  shows "\<exists>d. calculateDeliveryFee U loc c = Some (Num d) \<and> 4 \<le> d \<and> d \<le> 15000"
proof -
  obtain f where f: "fees_for c = Some f" using fees_for_row [OF assms] by blast
  obtain l n i where "f = \<lparr>local = Num l, national = Num n, international = Num i\<rparr>"
    "4 \<le> l" "l \<le> 15000" "4 \<le> n" "n \<le> 15000" "4 \<le> i" "i \<le> 15000"
    using fees_for_range [OF f] by blast
  then show ?thesis using calculateDeliveryFee_tier [of U loc c] f by auto
qed

text \<open>
  The substring test is the \<open>sublist\<close> relation, and trimming keeps every occurrence of a
  keyword.
\<close>

lemma startsWith_prefix: "startsWith s k = prefix k s"
  by (induction s k rule: startsWith.induct) auto

lemma str_includes_sublist: "str_includes s k = sublist k s"
  by (induction s) (simp_all add: startsWith_prefix sublist_Cons_right)

lemma sublist_dropWhile:
  assumes "k \<noteq> []" and "\<not> P (hd k)"
  shows "sublist k (dropWhile P s) = sublist k s"
proof (induction s)
  case Nil
  then show ?case by simp
next
  case (Cons x xs)
  show ?case
  proof (cases "P x")
    case True
    obtain y ys where k: "k = y # ys" using assms(1) by (cases k) auto
    have "\<not> prefix k (x # xs)" using True assms(2) k by auto
    then show ?thesis using True Cons by (simp add: sublist_Cons_right)
  next
    case False
    then show ?thesis by simp
  qed
qed

lemma sublist_trim:
  assumes "k \<noteq> []" and "\<not> is_space (hd k)" and "\<not> is_space (last k)"
  shows "sublist k (trim s) = sublist k s"
proof -
  have r: "rev k \<noteq> []" "\<not> is_space (hd (rev k))" using assms by (simp_all add: hd_rev)
  have "sublist k (trim s) = sublist (rev k) (dropWhile is_space (rev (dropWhile is_space s)))"
    unfolding trim_def using sublist_rev [of "rev k" "dropWhile is_space (rev (dropWhile is_space s))"]
    by simp
  also have "\<dots> = sublist (rev k) (rev (dropWhile is_space s))"
    using r by (rule sublist_dropWhile)
  also have "\<dots> = sublist k (dropWhile is_space s)" by simp
  also have "\<dots> = sublist k s" using assms(1,2) by (rule sublist_dropWhile)
  finally show ?thesis .
qed

lemma str_includes_trim:
  assumes "keyword k"
  shows "str_includes (trim (toLowerCase U loc)) k = mentions U loc k"
  using assms sublist_trim [of k "toLowerCase U loc"]
  by (simp add: keyword_def str_includes_sublist mentions_def)

lemma keywords_states: "\<forall>k \<in> set nigerianStates. keyword k"
  by (simp add: nigerianStates_def keyword_def is_space_def lit_def)

lemma keywords_cities: "\<forall>k \<in> set nigerianCities. keyword k"
  by (simp add: nigerianCities_def keyword_def is_space_def lit_def)

lemma keywords_other:
  "keyword (lit ''lagos'')" "keyword (lit ''nigeria'')" "keyword (lit ''international'')"
  "keyword (lit ''worldwide'')" "keyword (lit ''global'')"
  by (simp_all add: keyword_def is_space_def lit_def)

lemma list_ex_keywords:
  assumes "\<forall>k \<in> set ks. keyword k"
  shows "list_ex (\<lambda>k. str_includes (trim (toLowerCase U loc)) k) ks
           = (\<exists>k \<in> set ks. mentions U loc k)"
  using assms by (auto simp: list_ex_iff str_includes_trim)

lemma calculateDeliveryFee_by_mentions:
  assumes "fees_for c = Some f"
  shows "calculateDeliveryFee U loc c = Some
     (case loc of
        None \<Rightarrow> local f
      | Some l \<Rightarrow>
          if l = [] then local f
          else if c = ''NGN''
          then (if mentions U l (lit ''lagos'') then local f
                else if mentions U l (lit ''nigeria'')
                        \<or> (\<exists>k \<in> set nigerianStates \<union> set nigerianCities. mentions U l k)
                then national f
                else international f)
          else if mentions U l (lit ''international'') \<or> mentions U l (lit ''worldwide'')
                  \<or> mentions U l (lit ''global'')
          then international f
          else national f)"
  using assms
  by (simp add: calculateDeliveryFee_def Let_def str_includes_trim keywords_other
      list_ex_keywords keywords_states keywords_cities bex_Un split: option.split)

lemma fees_for_NGN:
  "fees_for ''NGN'' = Some \<lparr>local = Num 3500, national = Num 5000, international = Num 15000\<rparr>"
  by (simp add: fees_for_def NGN_row)

lemma mentions_ascii:
  assumes "list_all (\<lambda>c. c < 128) l"
  shows "mentions U l k = sublist k (map toLowerCase_unit l)"
  using assms by (simp add: mentions_def toLowerCase_def str_includes_sublist)

section \<open>The claims on fees and totals\<close>

text \<open>
  C1, as claimed: for every subtotal, location and currency the total is the sum
  \<open>subtotal + serviceFee + deliveryFee\<close> rounded to two decimal places. For the subtotal
  \<open>2\<^sup>1\<^sup>0\<^sup>1\<^sup>8\<close>, the location \<^verbatim>\<open>"Lagos"\<close> and the currency \<^verbatim>\<open>"NGN"\<close> the delivery fee is 3500 and
  the sum is a finite number below \<open>2\<^sup>1\<^sup>0\<^sup>1\<^sup>9\<close>, but the total returned is \<open>+\<infinity>\<close>:
  \<^verbatim>\<open>total * 100\<close> overflows. For the currency \<^verbatim>\<open>"constructor"\<close>, which names a member that
  the table inherits, the delivery fee is \<^verbatim>\<open>undefined\<close> and the total is \<open>NaN\<close>.
\<close>

theorem calculateOrderTotal_not_the_rounded_sum:
  "total (calculateOrderTotal (\<lambda>s. s) (Num (2 ^ 1018)) (Some (lit ''Lagos'')) ''NGN'' (Num 0)) = PosInf
   \<and> deliveryFee (calculateOrderTotal (\<lambda>s. s) (Num (2 ^ 1018)) (Some (lit ''Lagos'')) ''NGN'' (Num 0))
       = Some (Num 3500)
   \<and> js_lt (js_add (js_add (Num (2 ^ 1018)) (calculateServiceFee (Num (2 ^ 1018)))) (Num 3500))
        (Num (2 ^ 1019))
   \<and> deliveryFee (calculateOrderTotal (\<lambda>s. s) (Num 100) (Some (lit ''Accra'')) ''constructor'' (Num 0))
       = None
   \<and> total (calculateOrderTotal (\<lambda>s. s) (Num 100) (Some (lit ''Accra'')) ''constructor'' (Num 0))
       = NaN"
proof -
  have d: "calculateDeliveryFee (\<lambda>s. s) (Some (lit ''Lagos'')) ''NGN'' = Some (Num 3500)"
    by code_simp
  have 1: "total (calculateOrderTotal (\<lambda>s. s) (Num (2 ^ 1018)) (Some (lit ''Lagos'')) ''NGN'' (Num 0))
      = PosInf"
    using total_overflow(1) by (simp add: calculateOrderTotal_def Let_def d ToNumber_def)
  have 2: "deliveryFee (calculateOrderTotal (\<lambda>s. s) (Num (2 ^ 1018)) (Some (lit ''Lagos'')) ''NGN'' (Num 0))
       = Some (Num 3500)"
    by (simp add: calculateOrderTotal_def Let_def d)
  have 3: "deliveryFee (calculateOrderTotal (\<lambda>s. s) (Num 100) (Some (lit ''Accra'')) ''constructor'' (Num 0))
       = None"
    by code_simp
  have 4: "total (calculateOrderTotal (\<lambda>s. s) (Num 100) (Some (lit ''Accra'')) ''constructor'' (Num 0))
       = NaN"
    by code_simp
  show ?thesis by (intro conjI 1 2 3 4 total_overflow(2))
qed

text \<open>
  C1, amended. For every subtotal, location, currency and discount amount,
  \<^verbatim>\<open>calculateOrderTotal\<close> returns the service fee of \<^verbatim>\<open>calculateServiceFee(subtotal)\<close>, the
  delivery fee of \<^verbatim>\<open>calculateDeliveryFee(location, currency)\<close>, and as total
  \<^verbatim>\<open>Math.round((subtotal + serviceFee + deliveryFee) * 100) / 100\<close> in binary64 arithmetic.
  The total is the same for every discount amount: the discount amount, the subtotal
  and the currency are handed back as they came. For the subtotal 1000, the location
  \<^verbatim>\<open>"Lagos"\<close>, the currency \<^verbatim>\<open>"NGN"\<close> and the discount 0 the total is 4520. For a subtotal
  from 0 to \<open>10\<^sup>3\<^sup>0\<^sup>0\<close> and a currency that does not name an inherited member of the table,
  the fees and the total are finite, and the total is the binary64 value of a whole
  number of hundredths within half a cent of the exact sum, up to the relative error
  \<open>10\<^sup>-\<^sup>1\<^sup>4\<close> of the binary64 operations. For a currency that names an inherited member
  the delivery fee is \<^verbatim>\<open>undefined\<close> and the total is \<open>NaN\<close>.
\<close>

theorem calculateOrderTotal_parts:
  "serviceFee (calculateOrderTotal U s loc c d) = calculateServiceFee s
   \<and> deliveryFee (calculateOrderTotal U s loc c d) = calculateDeliveryFee U loc c
   \<and> total (calculateOrderTotal U s loc c d) =
       js_div (Math_round (js_mul
         (js_add (js_add s (calculateServiceFee s)) (ToNumber (calculateDeliveryFee U loc c)))
         (Num 100))) (Num 100)
   \<and> total (calculateOrderTotal U s loc c d) = total (calculateOrderTotal U s loc c d')
   \<and> discountAmount (calculateOrderTotal U s loc c d) = d
   \<and> subtotal (calculateOrderTotal U s loc c d) = s
   \<and> currency (calculateOrderTotal U s loc c d) = c
   \<and> total (calculateOrderTotal U (Num 1000) (Some (lit ''Lagos'')) ''NGN'' (Num 0)) = Num 4520
   \<and> (\<forall>x. s = Num x \<and> 0 \<le> x \<and> x \<le> 10 ^ 300 \<and> \<not> inherited c \<longrightarrow>
        (\<exists>fee dv t k. calculateServiceFee s = Num fee
           \<and> calculateDeliveryFee U loc c = Some (Num dv)
           \<and> total (calculateOrderTotal U s loc c d) = Num t
           \<and> t = rnd (of_int k / 100)
           \<and> \<bar>t - (x + fee + dv)\<bar> \<le> 1 / 200 + (x + fee + dv) / 100000000000000))
   \<and> (inherited c \<longrightarrow>
        deliveryFee (calculateOrderTotal U s loc c d) = None
        \<and> total (calculateOrderTotal U s loc c d) = NaN)"
proof -
  have ex: "total (calculateOrderTotal U (Num 1000) (Some (lit ''Lagos'')) ''NGN'' (Num 0)) = Num 4520"
    by code_simp
  have fin: "\<exists>fee dv t k. calculateServiceFee s = Num fee
           \<and> calculateDeliveryFee U loc c = Some (Num dv)
           \<and> total (calculateOrderTotal U s loc c d) = Num t
           \<and> t = rnd (of_int k / 100)
           \<and> \<bar>t - (x + fee + dv)\<bar> \<le> 1 / 200 + (x + fee + dv) / 100000000000000"
    if s: "s = Num x" and x: "0 \<le> x" "x \<le> 10 ^ 300" and c: "\<not> inherited c" for x
  proof -
    have "(10::rat) ^ 300 \<le> 2 ^ 1000" "(2::rat) ^ 1000 \<le> 2 ^ 1018" by simp_all
    then have xb: "x \<le> 2 ^ 1000" "x \<le> 2 ^ 1018" using x(2) by linarith+
    define fee where "fee = serviceFee_finite x"
    obtain dv where dv: "calculateDeliveryFee U loc c = Some (Num dv)" "4 \<le> dv" "dv \<le> 15000"
      using calculateDeliveryFee_range [OF c] by blast
    have f: "calculateServiceFee s = Num fee"
      unfolding s fee_def using x(1) xb(2) by (rule calculateServiceFee_finite)
    have f0: "0 \<le> fee" unfolding fee_def using x(1) by (rule serviceFee_finite_nonneg)
    have fu: "5 * fee \<le> x + 35" unfolding fee_def using x(1) by (rule serviceFee_finite_upper)
    have d0: "0 \<le> dv" using dv(2) by linarith
    have "js_div (Math_round (js_mul (js_add (js_add (Num x) (Num fee)) (Num dv)) (Num 100)))
            (Num 100) = Num (total_finite x fee dv)"
      using x(1) xb(1) f0 fu d0 dv(3) by (rule total_finite_eq)
    then have t: "total (calculateOrderTotal U s loc c d) = Num (total_finite x fee dv)"
      using f dv(1) by (simp add: calculateOrderTotal_def Let_def s ToNumber_def)
    have k: "total_finite x fee dv
        = rnd (of_int \<lfloor>rnd (rnd (rnd (x + fee) + dv) * 100) + 1 / 2\<rfloor> / 100)"
      by (simp add: total_finite_def cents_def)
    have n: "\<bar>total_finite x fee dv - (x + fee + dv)\<bar>
        \<le> 1 / 200 + (x + fee + dv) / 100000000000000"
      using x(1) f0 dv(2) by (rule total_finite_near)
    show ?thesis using f dv(1) t k n by blast
  qed
  have nan: "js_add a NaN = NaN" for a by (cases a) simp_all
  have inh: "inherited c \<longrightarrow>
        deliveryFee (calculateOrderTotal U s loc c d) = None
        \<and> total (calculateOrderTotal U s loc c d) = NaN"
    by (simp add: calculateOrderTotal_def Let_def calculateDeliveryFee_inherited ToNumber_def nan)
  have rest: "serviceFee (calculateOrderTotal U s loc c d) = calculateServiceFee s
   \<and> deliveryFee (calculateOrderTotal U s loc c d) = calculateDeliveryFee U loc c
   \<and> total (calculateOrderTotal U s loc c d) =
       js_div (Math_round (js_mul
         (js_add (js_add s (calculateServiceFee s)) (ToNumber (calculateDeliveryFee U loc c)))
         (Num 100))) (Num 100)
   \<and> total (calculateOrderTotal U s loc c d) = total (calculateOrderTotal U s loc c d')
   \<and> discountAmount (calculateOrderTotal U s loc c d) = d
   \<and> subtotal (calculateOrderTotal U s loc c d) = s
   \<and> currency (calculateOrderTotal U s loc c d) = c"
    by (simp add: calculateOrderTotal_def Let_def)
  show ?thesis using rest ex fin inh by blast
qed

theorem calculateOrderTotal_parts_witness:
  "(0::rat) \<le> 1000 \<and> (1000::rat) \<le> 10 ^ 300 \<and> \<not> inherited ''NGN''
   \<and> serviceFee (calculateOrderTotal (\<lambda>s. s) (Num 1000) (Some (lit ''Lagos'')) ''NGN'' (Num 0)) = Num 20
   \<and> deliveryFee (calculateOrderTotal (\<lambda>s. s) (Num 1000) (Some (lit ''Lagos'')) ''NGN'' (Num 0))
       = Some (Num 3500)
   \<and> total (calculateOrderTotal (\<lambda>s. s) (Num 1000) (Some (lit ''Lagos'')) ''NGN'' (Num 0)) = Num 4520
   \<and> total (calculateOrderTotal (\<lambda>s. s) (Num 1000) (Some (lit ''Lagos'')) ''NGN'' (Num 250)) = Num 4520
   \<and> \<bar>4520 - (1000 + 20 + 3500)\<bar> \<le> (1::rat) / 200 + (1000 + 20 + 3500) / 100000000000000
   \<and> inherited ''constructor''
   \<and> total (calculateOrderTotal (\<lambda>s. s) (Num 1000) (Some (lit ''Lagos'')) ''constructor'' (Num 0)) = NaN"
proof -
  have j: "inherited ''constructor''" by code_simp
  have 5: "total (calculateOrderTotal (\<lambda>s. s) (Num 1000) (Some (lit ''Lagos'')) ''constructor'' (Num 0)) = NaN"
    using calculateOrderTotal_parts
      [of "\<lambda>s. s" "Num 1000" "Some (lit ''Lagos'')" "''constructor''" "Num 0" "Num 250"] j
    by blast
  have f: "calculateServiceFee (Num 1000) = Num 20" by code_simp
  have g: "calculateDeliveryFee (\<lambda>s. s) (Some (lit ''Lagos'')) ''NGN'' = Some (Num 3500)" by code_simp
  have i: "\<not> inherited ''NGN''" by code_simp
  have h: "(0::rat) \<le> 1000" "(1000::rat) \<le> 10 ^ 300" by simp_all
  note t = calculateOrderTotal_parts
      [of "\<lambda>s. s" "Num 1000" "Some (lit ''Lagos'')" "''NGN''" "Num 0" "Num 250"]
  from t have 1: "serviceFee (calculateOrderTotal (\<lambda>s. s) (Num 1000) (Some (lit ''Lagos'')) ''NGN'' (Num 0))
      = calculateServiceFee (Num 1000)"
    by blast
  from t have 2: "deliveryFee (calculateOrderTotal (\<lambda>s. s) (Num 1000) (Some (lit ''Lagos'')) ''NGN'' (Num 0))
      = calculateDeliveryFee (\<lambda>s. s) (Some (lit ''Lagos'')) ''NGN''"
    by blast
  from t have 3: "total (calculateOrderTotal (\<lambda>s. s) (Num 1000) (Some (lit ''Lagos'')) ''NGN'' (Num 0))
      = total (calculateOrderTotal (\<lambda>s. s) (Num 1000) (Some (lit ''Lagos'')) ''NGN'' (Num 250))"
    by blast
  from t have 4: "total (calculateOrderTotal (\<lambda>s. s) (Num 1000) (Some (lit ''Lagos'')) ''NGN'' (Num 0))
      = Num 4520"
    by blast
  show ?thesis using 1 2 3 4 5 f g i j h by simp
qed

text \<open>
  C2, as claimed: for every subtotal \<open>S \<ge> 0\<close> the service fee is \<open>S \<times> 0.02\<close> rounded to two
  decimal places, a half cent going up. The subtotal 7.25 is a binary64 value, and
  \<open>7.25 \<times> 0.02 = 0.145\<close> lies on the half cent, so the claim asks for 0.15. The code
  multiplies in binary64: \<^verbatim>\<open>7.25 * 0.02 * 100\<close> is \<open>14.499999999999998\<close>, below 14.5, so
  \<^verbatim>\<open>Math.round\<close> gives 14 and the fee returned is 0.14. The checkout reaches such a
  subtotal: one item at 69 with the promo code \<^verbatim>\<open>HOLIDAY25\<close> leaves \<open>69 - 69 \<times> 0.25 = 51.75\<close>,
  whose fee of 1.035 would round to 1.04 and is returned as 1.03. Reading \<open>S \<times> 0.02\<close> as the
  binary64 product does not save the claim: at 0.75 that product is just below 0.015 and
  rounds to 0.01, where the code returns 0.02. And for the subtotal \<open>3 \<times> 2\<^sup>1\<^sup>0\<^sup>2\<^sup>2\<close>, a
  binary64 value near \<open>1.35 \<times> 10\<^sup>3\<^sup>0\<^sup>8\<close>, the fee returned is \<open>+\<infinity>\<close>.
\<close>

theorem calculateServiceFee_half_cent:
  "calculateServiceFee (Num (29 / 4)) = fl (14 / 100)
   \<and> round_half_up_2dp (29 / 4 * (2 / 100)) = 15 / 100
   \<and> calculateServiceFee (Num (29 / 4)) \<noteq> fl (round_half_up_2dp (29 / 4 * (2 / 100)))
   \<and> js_lt (js_mul (js_mul (Num (29 / 4)) SERVICE_FEE_PERCENTAGE) (Num 100)) (Num (29 / 2))
   \<and> js_sub (Num 69) (js_mul (Num 69) (fl (25 / 100))) = Num (207 / 4)
   \<and> calculateServiceFee (Num (207 / 4)) = fl (103 / 100)
   \<and> round_half_up_2dp (207 / 4 * (2 / 100)) = 104 / 100
   \<and> calculateServiceFee (Num (3 / 4)) = fl (2 / 100)
   \<and> js_mul (Num (3 / 4)) SERVICE_FEE_PERCENTAGE = Num (rnd (3 / 4 * percentage))
   \<and> round_half_up_2dp (rnd (3 / 4 * percentage)) = 1 / 100
   \<and> calculateServiceFee (Num (3 * 2 ^ 1022)) = PosInf"
proof -
  have "calculateServiceFee (Num (29 / 4)) = fl (14 / 100)
   \<and> round_half_up_2dp (29 / 4 * (2 / 100)) = 15 / 100
   \<and> calculateServiceFee (Num (29 / 4)) \<noteq> fl (round_half_up_2dp (29 / 4 * (2 / 100)))
   \<and> js_lt (js_mul (js_mul (Num (29 / 4)) SERVICE_FEE_PERCENTAGE) (Num 100)) (Num (29 / 2))
   \<and> js_sub (Num 69) (js_mul (Num 69) (fl (25 / 100))) = Num (207 / 4)
   \<and> calculateServiceFee (Num (207 / 4)) = fl (103 / 100)
   \<and> round_half_up_2dp (207 / 4 * (2 / 100)) = 104 / 100
   \<and> calculateServiceFee (Num (3 / 4)) = fl (2 / 100)
   \<and> js_mul (Num (3 / 4)) SERVICE_FEE_PERCENTAGE = Num (rnd (3 / 4 * percentage))
   \<and> round_half_up_2dp (rnd (3 / 4 * percentage)) = 1 / 100"
    by code_simp
  then show ?thesis using calculateServiceFee_overflow by blast
qed

text \<open>
  C2, amended. For every subtotal \<open>S\<close> from 0 to \<open>10\<^sup>3\<^sup>0\<^sup>0\<close>, \<^verbatim>\<open>calculateServiceFee(S)\<close> is
  \<^verbatim>\<open>Math.round(S * 0.02 * 100) / 100\<close> in binary64 arithmetic: a finite number, the binary64
  value of a whole number of cents, within half a cent of \<open>S \<times> 0.02\<close> up to the rounding
  error of the operations (\<open>10\<^sup>-\<^sup>1\<^sup>4\<close>, relative to the subtotal and absolute). It is
  \<open>S \<times> 0.02\<close> rounded to the nearest cent wherever that is not a matter of this error; on
  a half cent the fee is one of the two cents next to it.
\<close>

theorem calculateServiceFee_nearest_cent:
  assumes "0 \<le> x" and "x \<le> 10 ^ 300"
  shows "calculateServiceFee (Num x) =
           js_div (Math_round (js_mul (js_mul (Num x) SERVICE_FEE_PERCENTAGE) (Num 100))) (Num 100)
         \<and> (\<exists>t k. calculateServiceFee (Num x) = Num t
               \<and> t = rnd (of_int k / 100)
               \<and> \<bar>t - x * (2 / 100)\<bar> \<le> 1 / 200 + x / 100000000000000 + 1 / 100000000000000)"
proof -
  have "(10::rat) ^ 300 \<le> 2 ^ 1018" by simp
  then have "x \<le> 2 ^ 1018" using assms(2) by linarith
  then have f: "calculateServiceFee (Num x) = Num (serviceFee_finite x)"
    using assms(1) by (intro calculateServiceFee_finite)
  have k: "serviceFee_finite x
      = rnd (of_int \<lfloor>rnd (rnd (x * percentage) * 100) + 1 / 2\<rfloor> / 100)"
    by (simp add: serviceFee_finite_def cents_def)
  have n: "\<bar>serviceFee_finite x - x * (2 / 100)\<bar>
      \<le> 1 / 200 + x / 100000000000000 + 1 / 100000000000000"
    using assms(1) by (rule serviceFee_finite_near)
  have "\<exists>t k. calculateServiceFee (Num x) = Num t
               \<and> t = rnd (of_int k / 100)
               \<and> \<bar>t - x * (2 / 100)\<bar> \<le> 1 / 200 + x / 100000000000000 + 1 / 100000000000000"
    using f k n by blast
  then show ?thesis by (simp add: calculateServiceFee_def)
qed

theorem calculateServiceFee_nearest_cent_witness:
  "(0::rat) \<le> 1000 \<and> (1000::rat) \<le> 10 ^ 300
   \<and> calculateServiceFee (Num 1000) = Num 20
   \<and> \<bar>20 - 1000 * (2 / 100)\<bar> \<le> (1::rat) / 200 + 1000 / 100000000000000 + 1 / 100000000000000"
proof -
  have h: "(0::rat) \<le> 1000" "(1000::rat) \<le> 10 ^ 300" by simp_all
  have "calculateServiceFee (Num 1000) = Num 20" by code_simp
  then show ?thesis using h calculateServiceFee_nearest_cent [OF h] by simp
qed

text \<open>
  C8, as claimed: for every subtotal \<open>\<ge> 0\<close> and every location and currency the total is
  at least the subtotal. For the currency \<^verbatim>\<open>"constructor"\<close> the table lookup finds the
  inherited member of that name, the delivery fee is \<^verbatim>\<open>undefined\<close> and the total is \<open>NaN\<close>,
  which is not at least the subtotal 100.
\<close>

theorem calculateOrderTotal_inherited_currency:
  "js_ge (Num 100) (Num 0)
   \<and> deliveryFee (calculateOrderTotal (\<lambda>s. s) (Num 100) (Some (lit ''Accra'')) ''constructor'' (Num 0))
       = None
   \<and> total (calculateOrderTotal (\<lambda>s. s) (Num 100) (Some (lit ''Accra'')) ''constructor'' (Num 0))
       = NaN
   \<and> \<not> js_ge (total (calculateOrderTotal (\<lambda>s. s) (Num 100) (Some (lit ''Accra''))
               ''constructor'' (Num 0))) (Num 100)"
  by code_simp

text \<open>
  C8, amended. For every subtotal \<open>\<ge> 0\<close>, \<open>+\<infinity>\<close> included, every location and every currency
  that does not name an inherited member of the table, the total returned by
  \<^verbatim>\<open>calculateOrderTotal\<close> is at least the subtotal, and the service fee and the delivery
  fee are not negative. The delivery fee is at least 4 in every row of the table, which
  outweighs what the roundings of the sum can take away; a total that overflows is \<open>+\<infinity>\<close>.
\<close>

theorem calculateOrderTotal_ge_subtotal:
  assumes "js_ge s (Num 0)" and "\<not> inherited c"
  shows "js_ge (total (calculateOrderTotal U s loc c d)) s
         \<and> js_ge (serviceFee (calculateOrderTotal U s loc c d)) (Num 0)
         \<and> js_ge (ToNumber (deliveryFee (calculateOrderTotal U s loc c d))) (Num 0)"
proof -
  obtain dv where dv: "calculateDeliveryFee U loc c = Some (Num dv)" "4 \<le> dv" "dv \<le> 15000"
    using calculateDeliveryFee_range [OF assms(2)] by blast
  have d0: "0 \<le> dv" using dv(2) by linarith
  have 3: "js_ge (ToNumber (deliveryFee (calculateOrderTotal U s loc c d))) (Num 0)"
    using dv(1) d0 by (simp add: calculateOrderTotal_def Let_def ToNumber_def)
  consider "s = PosInf" | x where "s = Num x" "0 \<le> x"
    using assms(1) js_ge_zero by blast
  then show ?thesis
  proof cases
    case 1
    have "calculateServiceFee PosInf = PosInf"
      by (simp add: calculateServiceFee_def SERVICE_FEE_PERCENTAGE_value percentage_value)
    then show ?thesis using 1 3 dv(1)
      by (simp add: calculateOrderTotal_def Let_def ToNumber_def)
  next
    case 2
    have f: "unless_overflow (serviceFee_finite x) (calculateServiceFee s)"
      unfolding 2(1) using unless_overflow_Num 2(2) by (rule calculateServiceFee_unless_overflow)
    have "js_ge (calculateServiceFee s) (Num 0)"
      using f serviceFee_finite_nonneg [OF 2(2)] by (rule unless_overflow_ge)
    then have b: "js_ge (serviceFee (calculateOrderTotal U s loc c d)) (Num 0)"
      by (simp add: calculateOrderTotal_def Let_def)
    have "unless_overflow (total_finite x (serviceFee_finite x) dv)
       (js_div (Math_round (js_mul (js_add (js_add s (calculateServiceFee s)) (Num dv)) (Num 100)))
          (Num 100))"
      unfolding 2(1) using unless_overflow_Num 2(2) d0 by (rule total_unless_overflow)
    then have "js_ge (js_div (Math_round (js_mul (js_add (js_add s (calculateServiceFee s)) (Num dv))
        (Num 100))) (Num 100)) (Num x)"
      using total_finite_ge [OF 2(2) dv(2)] by (rule unless_overflow_ge)
    then have a: "js_ge (total (calculateOrderTotal U s loc c d)) s"
      using dv(1) by (simp add: calculateOrderTotal_def Let_def ToNumber_def 2(1))
    show ?thesis using a b 3 by simp
  qed
qed

theorem calculateOrderTotal_ge_subtotal_witness:
  "js_ge (Num 1000) (Num 0) \<and> \<not> inherited ''NGN''
   \<and> js_ge (total (calculateOrderTotal (\<lambda>s. s) (Num 1000) (Some (lit ''Lagos'')) ''NGN'' (Num 0)))
        (Num 1000)
   \<and> total (calculateOrderTotal (\<lambda>s. s) (Num 1000) (Some (lit ''Lagos'')) ''NGN'' (Num 0)) = Num 4520"
proof -
  have h: "js_ge (Num 1000) (Num 0)" "\<not> inherited ''NGN''" by code_simp+
  have "total (calculateOrderTotal (\<lambda>s. s) (Num 1000) (Some (lit ''Lagos'')) ''NGN'' (Num 0)) = Num 4520"
    by code_simp
  then show ?thesis
    using h calculateOrderTotal_ge_subtotal [OF h, of "\<lambda>s. s" "Some (lit ''Lagos'')" "Num 0"]
    by simp
qed

section \<open>The claims on the delivery fee\<close>

text \<open>
  C3, as claimed: for every location and every currency the fee is the fee of a tier.
  For the currency \<^verbatim>\<open>"constructor"\<close>, \<^verbatim>\<open>"toString"\<close> or \<^verbatim>\<open>"__proto__"\<close> the table lookup finds
  the inherited member of that name, which has no tier, and the function returns
  \<^verbatim>\<open>undefined\<close>, for a location, for the empty location and for a missing one.
\<close>

theorem calculateDeliveryFee_inherited_currency:
  "inherited ''constructor'' \<and> inherited ''toString'' \<and> inherited ''__proto__''
   \<and> calculateDeliveryFee (\<lambda>s. s) (Some (lit ''Accra'')) ''constructor'' = None
   \<and> calculateDeliveryFee (\<lambda>s. s) (Some []) ''toString'' = None
   \<and> calculateDeliveryFee (\<lambda>s. s) None ''__proto__'' = None"
  by code_simp

text \<open>
  C3, amended. For a currency that names an inherited member of the table
  \<^verbatim>\<open>calculateDeliveryFee\<close> returns \<^verbatim>\<open>undefined\<close>. For every other currency the fees are those
  of its row of the table, or of the row of \<^verbatim>\<open>NGN\<close> when the table has no row for it, and
  the tier is selected by these rules, the first that applies: a missing or empty
  location gives the local fee. For the base currency \<^verbatim>\<open>NGN\<close>, a location whose text
  contains \<^verbatim>\<open>lagos\<close>, in any case of letters, gives the local fee 3500; one that contains
  \<^verbatim>\<open>nigeria\<close> or one of the Nigerian states or cities of the code gives the national fee
  5000; every other location gives the international fee 15000. For every other
  currency the fee is the national fee, unless the location contains \<^verbatim>\<open>international\<close>,
  \<^verbatim>\<open>worldwide\<close> or \<^verbatim>\<open>global\<close>: then it is the international fee. A location contains a
  keyword in any case of letters when its conversion to lower case by \<^verbatim>\<open>toLowerCase\<close>
  contains it; for a location of ASCII characters that is the text with \<open>A\<close> to \<open>Z\<close>
  replaced by \<open>a\<close> to \<open>z\<close>.
\<close>

theorem calculateDeliveryFee_tiers:
  "(inherited c \<longrightarrow> calculateDeliveryFee U loc c = None)
   \<and> (\<not> inherited c \<longrightarrow>
        (\<exists>f. (DELIVERY_FEES_BY_CURRENCY c = Some f
               \<or> DELIVERY_FEES_BY_CURRENCY c = None \<and> DELIVERY_FEES_BY_CURRENCY ''NGN'' = Some f)
           \<and> calculateDeliveryFee U loc c = Some
               (case loc of
                  None \<Rightarrow> local f
                | Some l \<Rightarrow>
                    if l = [] then local f
                    else if c = ''NGN''
                    then (if mentions U l (lit ''lagos'') then Num 3500
                          else if mentions U l (lit ''nigeria'')
                                  \<or> (\<exists>k \<in> set nigerianStates \<union> set nigerianCities. mentions U l k)
                          then Num 5000
                          else Num 15000)
                    else if mentions U l (lit ''international'') \<or> mentions U l (lit ''worldwide'')
                            \<or> mentions U l (lit ''global'')
                    then international f
                    else national f)))
   \<and> (list_all (\<lambda>u. u < 128) l' \<longrightarrow> mentions U l' k' = sublist k' (map toLowerCase_unit l'))"
proof -
  have 1: "inherited c \<longrightarrow> calculateDeliveryFee U loc c = None"
    by (simp add: calculateDeliveryFee_inherited)
  have 2: "\<exists>f. (DELIVERY_FEES_BY_CURRENCY c = Some f
               \<or> DELIVERY_FEES_BY_CURRENCY c = None \<and> DELIVERY_FEES_BY_CURRENCY ''NGN'' = Some f)
           \<and> calculateDeliveryFee U loc c = Some
               (case loc of
                  None \<Rightarrow> local f
                | Some l \<Rightarrow>
                    if l = [] then local f
                    else if c = ''NGN''
                    then (if mentions U l (lit ''lagos'') then Num 3500
                          else if mentions U l (lit ''nigeria'')
                                  \<or> (\<exists>k \<in> set nigerianStates \<union> set nigerianCities. mentions U l k)
                          then Num 5000
                          else Num 15000)
                    else if mentions U l (lit ''international'') \<or> mentions U l (lit ''worldwide'')
                            \<or> mentions U l (lit ''global'')
                    then international f
                    else national f)"
    if c: "\<not> inherited c"
  proof -
    obtain f where f: "fees_for c = Some f"
      and r: "DELIVERY_FEES_BY_CURRENCY c = Some f
               \<or> DELIVERY_FEES_BY_CURRENCY c = None \<and> DELIVERY_FEES_BY_CURRENCY ''NGN'' = Some f"
      using fees_for_row [OF c] by blast
    have n: "c = ''NGN'' \<Longrightarrow> f = \<lparr>local = Num 3500, national = Num 5000, international = Num 15000\<rparr>"
      using f by (simp add: fees_for_NGN)
    have "calculateDeliveryFee U loc c = Some
               (case loc of
                  None \<Rightarrow> local f
                | Some l \<Rightarrow>
                    if l = [] then local f
                    else if c = ''NGN''
                    then (if mentions U l (lit ''lagos'') then Num 3500
                          else if mentions U l (lit ''nigeria'')
                                  \<or> (\<exists>k \<in> set nigerianStates \<union> set nigerianCities. mentions U l k)
                          then Num 5000
                          else Num 15000)
                    else if mentions U l (lit ''international'') \<or> mentions U l (lit ''worldwide'')
                            \<or> mentions U l (lit ''global'')
                    then international f
                    else national f)"
      unfolding calculateDeliveryFee_by_mentions [OF f] using n
      by (auto split: option.split)
    then show ?thesis using r by blast
  qed
  have 3: "list_all (\<lambda>u. u < 128) l' \<longrightarrow> mentions U l' k' = sublist k' (map toLowerCase_unit l')"
    by (simp add: mentions_ascii)
  show ?thesis using 1 2 3 by blast
qed

theorem calculateDeliveryFee_tiers_witness:
  "\<not> inherited ''NGN'' \<and> \<not> inherited ''USD'' \<and> \<not> inherited ''EUR'' \<and> inherited ''valueOf''
   \<and> calculateDeliveryFee (\<lambda>s. s) (Some (lit ''Enugu'')) ''NGN'' = Some (Num 5000)
   \<and> list_all (\<lambda>u. u < 128) (lit ''Enugu'')
   \<and> mentions (\<lambda>s. s) (lit ''Enugu'') (lit ''enugu'')
   \<and> calculateDeliveryFee (\<lambda>s. s) (Some (lit ''Paris'')) ''NGN'' = Some (Num 15000)
   \<and> calculateDeliveryFee (\<lambda>s. s) (Some (lit ''12 Allen Avenue, LAGOS'')) ''NGN'' = Some (Num 3500)
   \<and> calculateDeliveryFee (\<lambda>s. s) (Some []) ''USD'' = Some (Num 5)
   \<and> calculateDeliveryFee (\<lambda>s. s) (Some (lit ''Berlin'')) ''EUR'' = Some (Num 7)
   \<and> calculateDeliveryFee (\<lambda>s. s) (Some (lit ''Worldwide'')) ''EUR'' = Some (Num 20)
   \<and> calculateDeliveryFee (\<lambda>s. s) (Some (lit ''Lagos'')) ''valueOf'' = None"
proof -
  have i: "\<not> inherited ''NGN''" "\<not> inherited ''USD''" "\<not> inherited ''EUR''" "inherited ''valueOf''"
    by code_simp+
  have a: "list_all (\<lambda>u. u < 128) (lit ''Enugu'')" by code_simp
  have s: "sublist (lit ''enugu'') (map toLowerCase_unit (lit ''Enugu''))"
    by (simp add: lit_def toLowerCase_unit_def)
  have m: "mentions (\<lambda>s. s) (lit ''Enugu'') (lit ''enugu'')"
    using calculateDeliveryFee_tiers [of "''NGN''" "\<lambda>s. s" None "lit ''Enugu''" "lit ''enugu''"] a s
    by blast
  have "lit ''enugu'' \<in> set nigerianStates" by (simp add: nigerianStates_def)
  then have e: "\<exists>k \<in> set nigerianStates \<union> set nigerianCities. mentions (\<lambda>s. s) (lit ''Enugu'') k"
    using m by blast
  have l: "\<not> mentions (\<lambda>s. s) (lit ''Enugu'') (lit ''lagos'')" "lit ''Enugu'' \<noteq> []" by code_simp+
  have r: "DELIVERY_FEES_BY_CURRENCY ''NGN''
     = Some \<lparr>local = Num 3500, national = Num 5000, international = Num 15000\<rparr>"
    by (rule NGN_row)
  have 1: "calculateDeliveryFee (\<lambda>s. s) (Some (lit ''Enugu'')) ''NGN'' = Some (Num 5000)"
    using calculateDeliveryFee_tiers [of "''NGN''" "\<lambda>s. s" "Some (lit ''Enugu'')" "[]" "[]"] i(1) e l
    by auto
  have 2: "calculateDeliveryFee (\<lambda>s. s) (Some (lit ''Lagos'')) ''valueOf'' = None"
    using calculateDeliveryFee_tiers [of "''valueOf''" "\<lambda>s. s" "Some (lit ''Lagos'')" "[]" "[]"] i(4)
    by blast
  have 3: "calculateDeliveryFee (\<lambda>s. s) (Some (lit ''Paris'')) ''NGN'' = Some (Num 15000)
   \<and> calculateDeliveryFee (\<lambda>s. s) (Some (lit ''12 Allen Avenue, LAGOS'')) ''NGN'' = Some (Num 3500)
   \<and> calculateDeliveryFee (\<lambda>s. s) (Some []) ''USD'' = Some (Num 5)
   \<and> calculateDeliveryFee (\<lambda>s. s) (Some (lit ''Berlin'')) ''EUR'' = Some (Num 7)
   \<and> calculateDeliveryFee (\<lambda>s. s) (Some (lit ''Worldwide'')) ''EUR'' = Some (Num 20)"
    by code_simp
  show ?thesis using i a m 1 2 3 by blast
qed

text \<open>
  C10, as claimed: for every currency that the table does not list the function still
  returns a fee, 5000 for every location without \<^verbatim>\<open>international\<close>, \<^verbatim>\<open>worldwide\<close> or
  \<^verbatim>\<open>global\<close> in it. The table does not list \<^verbatim>\<open>"constructor"\<close>, but the lookup finds the
  inherited member of that name: no fee of \<^verbatim>\<open>NGN\<close> is taken and the result for the location
  \<^verbatim>\<open>"Accra"\<close> is \<^verbatim>\<open>undefined\<close>. And for a currency that is neither listed nor inherited, the
  empty location has none of the three words and gives 3500: the test \<^verbatim>\<open>!location\<close> comes
  first and returns the local fee.
\<close>

theorem calculateDeliveryFee_unlisted_not_total:
  "DELIVERY_FEES_BY_CURRENCY ''constructor'' = None
   \<and> \<not> mentions (\<lambda>s. s) (lit ''Accra'') (lit ''international'')
   \<and> \<not> mentions (\<lambda>s. s) (lit ''Accra'') (lit ''worldwide'')
   \<and> \<not> mentions (\<lambda>s. s) (lit ''Accra'') (lit ''global'')
   \<and> calculateDeliveryFee (\<lambda>s. s) (Some (lit ''Accra'')) ''constructor'' = None
   \<and> DELIVERY_FEES_BY_CURRENCY ''XYZ'' = None
   \<and> \<not> mentions (\<lambda>s. s) [] (lit ''international'') \<and> \<not> mentions (\<lambda>s. s) [] (lit ''worldwide'')
   \<and> \<not> mentions (\<lambda>s. s) [] (lit ''global'')
   \<and> calculateDeliveryFee (\<lambda>s. s) (Some []) ''XYZ'' = Some (Num 3500)"
  by code_simp

text \<open>
  C10, amended. For every currency that the table does not list and that does not name
  an inherited member of the table, \<^verbatim>\<open>calculateDeliveryFee\<close> returns a fee of the row of
  \<^verbatim>\<open>NGN\<close> by the rules of the other currencies: 3500 for a missing or empty location, 15000
  for a location that contains \<^verbatim>\<open>international\<close>, \<^verbatim>\<open>worldwide\<close> or \<^verbatim>\<open>global\<close>, and 5000 for
  every other location. For a currency that names an inherited member it returns
  \<^verbatim>\<open>undefined\<close>.
\<close>

theorem calculateDeliveryFee_unlisted_currency:
  assumes "DELIVERY_FEES_BY_CURRENCY c = None"
  shows "(\<not> inherited c \<longrightarrow>
           calculateDeliveryFee U loc c = Some
             (case loc of
                None \<Rightarrow> Num 3500
              | Some l \<Rightarrow>
                  if l = [] then Num 3500
                  else if mentions U l (lit ''international'') \<or> mentions U l (lit ''worldwide'')
                          \<or> mentions U l (lit ''global'')
                  then Num 15000
                  else Num 5000))
         \<and> (inherited c \<longrightarrow> calculateDeliveryFee U loc c = None)"
proof -
  have n: "c \<noteq> ''NGN''" using assms NGN_row by auto
  have "calculateDeliveryFee U loc c = Some
             (case loc of
                None \<Rightarrow> Num 3500
              | Some l \<Rightarrow>
                  if l = [] then Num 3500
                  else if mentions U l (lit ''international'') \<or> mentions U l (lit ''worldwide'')
                          \<or> mentions U l (lit ''global'')
                  then Num 15000
                  else Num 5000)"
    if c: "\<not> inherited c"
  proof -
    have f: "fees_for c = Some \<lparr>local = Num 3500, national = Num 5000, international = Num 15000\<rparr>"
      using assms c by (simp add: fees_for_def NGN_row)
    show ?thesis
      unfolding calculateDeliveryFee_by_mentions [OF f] using n by (simp split: option.split)
  qed
  then show ?thesis by (simp add: calculateDeliveryFee_inherited)
qed

theorem calculateDeliveryFee_unlisted_currency_witness:
  "DELIVERY_FEES_BY_CURRENCY ''XYZ'' = None \<and> \<not> inherited ''XYZ''
   \<and> DELIVERY_FEES_BY_CURRENCY ''hasOwnProperty'' = None \<and> inherited ''hasOwnProperty''
   \<and> calculateDeliveryFee (\<lambda>s. s) (Some (lit ''Accra'')) ''XYZ'' = Some (Num 5000)
   \<and> calculateDeliveryFee (\<lambda>s. s) (Some (lit ''Global Express'')) ''XYZ'' = Some (Num 15000)
   \<and> calculateDeliveryFee (\<lambda>s. s) None ''XYZ'' = Some (Num 3500)
   \<and> calculateDeliveryFee (\<lambda>s. s) (Some (lit ''Accra'')) ''hasOwnProperty'' = None"
proof -
  have h: "DELIVERY_FEES_BY_CURRENCY ''XYZ'' = None" "\<not> inherited ''XYZ''"
    "DELIVERY_FEES_BY_CURRENCY ''hasOwnProperty'' = None" "inherited ''hasOwnProperty''"
    by code_simp+
  have 1: "\<not> mentions (\<lambda>s. s) (lit ''Accra'') (lit ''international'')"
    "\<not> mentions (\<lambda>s. s) (lit ''Accra'') (lit ''worldwide'')"
    "\<not> mentions (\<lambda>s. s) (lit ''Accra'') (lit ''global'')"
    "mentions (\<lambda>s. s) (lit ''Global Express'') (lit ''global'')"
    "lit ''Accra'' \<noteq> []" "lit ''Global Express'' \<noteq> []"
    by code_simp+
  have a: "calculateDeliveryFee (\<lambda>s. s) (Some (lit ''Accra'')) ''XYZ'' = Some (Num 5000)"
    using calculateDeliveryFee_unlisted_currency [OF h(1), of "\<lambda>s. s" "Some (lit ''Accra'')"] h(2) 1
    by simp
  have b: "calculateDeliveryFee (\<lambda>s. s) (Some (lit ''Global Express'')) ''XYZ'' = Some (Num 15000)"
    using calculateDeliveryFee_unlisted_currency [OF h(1), of "\<lambda>s. s" "Some (lit ''Global Express'')"]
      h(2) 1
    by simp
  have c: "calculateDeliveryFee (\<lambda>s. s) None ''XYZ'' = Some (Num 3500)"
    using calculateDeliveryFee_unlisted_currency [OF h(1), of "\<lambda>s. s" None] h(2) by simp
  have d: "calculateDeliveryFee (\<lambda>s. s) (Some (lit ''Accra'')) ''hasOwnProperty'' = None"
    using calculateDeliveryFee_unlisted_currency [OF h(3), of "\<lambda>s. s" "Some (lit ''Accra'')"] h(4)
    by simp
  show ?thesis using h a b c d by blast
qed

section \<open>The claim on the expansion of a selection\<close>

lemma fold_push:
  "fold (\<lambda>col acc'. acc' @ [f col]) cols acc = acc @ map f cols"
  by (induction cols arbitrary: acc) simp_all

lemma fold_push_all:
  "fold (\<lambda>sz acc. acc @ map (g sz) cols) szs acc
     = acc @ map (\<lambda>(sz, col). g sz col) (List.product szs cols)"
  by (induction szs arbitrary: acc) (simp_all add: comp_def)

lemma newItems_product:
  "newItems product q szs cols
     = map (\<lambda>(sz, col). newItem product q sz col) (List.product szs cols)"
  by (simp add: newItems_def fold_push fold_push_all)

text \<open>
  C7. With no size or no colour selected, \<^verbatim>\<open>handleAddToCart\<close> only shows the alert
  \<^verbatim>\<open>Selection Required\<close>: \<^verbatim>\<open>addToCart\<close> is not called and no item is made. Otherwise it calls
  \<^verbatim>\<open>addToCart\<close> once, with the items of the two loops. These are the Cartesian product of
  the sizes and the colours, sizes first: the sizes and colours of the items, in order,
  are the pairs of that product, \<open>|sizes| \<times> |colours|\<close> items, and every item carries the
  identifier, the name, the image and the price of the product and the whole quantity.
\<close>

theorem handleAddToCart_expansion:
  "(selectedSizes m = [] \<or> selectedColors m = [] \<longrightarrow>
      handleAddToCart toString addToCart product m =
        m\<lparr>modal_alerts := modal_alerts m @
             [Alert ''Selection Required'' ''Please select at least one size and one color'']\<rparr>
      \<and> addToCart_calls (handleAddToCart toString addToCart product m) = addToCart_calls m)
   \<and> (selectedSizes m \<noteq> [] \<and> selectedColors m \<noteq> [] \<longrightarrow>
      addToCart_calls (handleAddToCart toString addToCart product m) =
        addToCart_calls m @
          [newItems product (selectedQuantity m) (selectedSizes m) (selectedColors m)])
   \<and> newItems product q szs cols =
        map (\<lambda>(sz, col). newItem product q sz col) (List.product szs cols)
   \<and> map (\<lambda>it. (item_size it, color it)) (newItems product q szs cols) = List.product szs cols
   \<and> length (newItems product q szs cols) = length szs * length cols
   \<and> (\<forall>it \<in> set (newItems product q szs cols).
         quantity it = q \<and> productId it = prod_id product \<and> productName it = prod_name product
         \<and> productImage it = image_url product \<and> price it = prod_price product)"
proof -
  have "selectedSizes m = [] \<or> selectedColors m = [] \<longrightarrow>
      handleAddToCart toString addToCart product m =
        m\<lparr>modal_alerts := modal_alerts m @
             [Alert ''Selection Required'' ''Please select at least one size and one color'']\<rparr>
      \<and> addToCart_calls (handleAddToCart toString addToCart product m) = addToCart_calls m"
    by (auto simp: handleAddToCart_def)
  moreover have "selectedSizes m \<noteq> [] \<and> selectedColors m \<noteq> [] \<longrightarrow>
      addToCart_calls (handleAddToCart toString addToCart product m) =
        addToCart_calls m @
          [newItems product (selectedQuantity m) (selectedSizes m) (selectedColors m)]"
    by (simp add: handleAddToCart_def Let_def resetModal_def split: option.split)
  moreover have "length (newItems product q szs cols) = length szs * length cols"
    by (simp add: newItems_product)
  moreover have "\<forall>it \<in> set (newItems product q szs cols).
         quantity it = q \<and> productId it = prod_id product \<and> productName it = prod_name product
         \<and> productImage it = image_url product \<and> price it = prod_price product"
    by (auto simp: newItems_product newItem_def)
  moreover have "map (\<lambda>it. (item_size it, color it)) (newItems product q szs cols)
      = List.product szs cols"
    by (simp add: newItems_product newItem_def comp_def case_prod_unfold)
  ultimately show ?thesis using newItems_product [of product q szs cols] by blast
qed

theorem handleAddToCart_expansion_witness:
  "newItems example_product (Num 2) [''S'', ''M''] [''Red'']
     = [newItem example_product (Num 2) ''S'' ''Red'', newItem example_product (Num 2) ''M'' ''Red'']
   \<and> map (\<lambda>it. (item_size it, color it)) (newItems example_product (Num 2) [''S'', ''M''] [''Red''])
       = [(''S'', ''Red''), (''M'', ''Red'')]
   \<and> length (newItems example_product (Num 2) [''S'', ''M''] [''Red'']) = 2
   \<and> map quantity (newItems example_product (Num 2) [''S'', ''M''] [''Red'']) = [Num 2, Num 2]
   \<and> map productId (newItems example_product (Num 2) [''S'', ''M''] [''Red'']) = [''p1'', ''p1'']
   \<and> map price (newItems example_product (Num 2) [''S'', ''M''] [''Red'']) = [Num 1000, Num 1000]
   \<and> addToCart_calls (handleAddToCart (\<lambda>n. ''2'') (\<lambda>its. None) example_product
        \<lparr>selectedSizes = [''S'', ''M''], selectedColors = [''Red''], selectedQuantity = Num 2,
         modal_loading = False, modal_alerts = [], addToCart_calls = []\<rparr>)
       = [newItem example_product (Num 2) ''S'' ''Red'', newItem example_product (Num 2) ''M'' ''Red''] # []
   \<and> addToCart_calls (handleAddToCart (\<lambda>n. ''2'') (\<lambda>its. None) example_product
        \<lparr>selectedSizes = [], selectedColors = [''Red''], selectedQuantity = Num 2,
         modal_loading = False, modal_alerts = [], addToCart_calls = []\<rparr>) = []"
  using handleAddToCart_expansion [of
      "\<lparr>selectedSizes = [''S'', ''M''], selectedColors = [''Red''], selectedQuantity = Num 2,
        modal_loading = False, modal_alerts = [], addToCart_calls = []\<rparr>"
      "\<lambda>n. ''2''" "\<lambda>its. None" example_product "Num 2" "[''S'', ''M'']" "[''Red'']"]
    handleAddToCart_expansion [of
      "\<lparr>selectedSizes = [], selectedColors = [''Red''], selectedQuantity = Num 2,
        modal_loading = False, modal_alerts = [], addToCart_calls = []\<rparr>"
      "\<lambda>n. ''2''" "\<lambda>its. None" example_product "Num 2" "[''S'', ''M'']" "[''Red'']"]
  by (simp add: newItem_def example_product_def)

section \<open>The claim on promo codes\<close>

lemma PROMO_CODES_valid:
  assumes "PROMO_CODES c = Some p"
  shows "isActive p \<and> startDate p = None \<and> endDate p = None \<and> maxUses p = None"
proof -
  have "(c, p) \<in> set
     [(''WELCOME10'', promo ''WELCOME10'' ''10% off your order'' (fl (10 / 100))),
      (''SAVE20'', promo ''SAVE20'' ''20% off your order'' (fl (20 / 100))),
      (''FIRST15'', promo ''FIRST15'' ''15% off for first-time customers'' (fl (15 / 100))),
      (''STUDENT'', promo ''STUDENT'' ''12% student discount'' (fl (12 / 100))),
      (''HOLIDAY25'', promo ''HOLIDAY25'' ''25% holiday special'' (fl (25 / 100)))]"
    using assms unfolding PROMO_CODES_def by (rule map_of_SomeD)
  then show ?thesis
    by (simp only: set_simps insert_iff empty_iff prod.inject) (elim disjE conjE; simp add: promo_def)
qed

lemma validatePromoCode_static: "validatePromoCode now c = PROMO_CODES c"
proof (cases "PROMO_CODES c")
  case None
  then show ?thesis by (simp add: validatePromoCode_def validatePromoCode_in_def)
next
  case (Some p)
  then show ?thesis using PROMO_CODES_valid [OF Some]
    by (simp add: validatePromoCode_def validatePromoCode_in_def)
qed

text \<open>
  C6. \<^verbatim>\<open>validatePromoCode\<close> returns nothing exactly when the code is not in the catalogue,
  or its entry is not active, or has a start date after now, or an end date before now,
  or has both a usage cap and a count of uses and the count has reached the cap.
  Otherwise it returns the entry of the catalogue as it is. For the catalogue of the
  code, whose five entries are active and carry no dates and no cap, that is the lookup
  of the code. \<^verbatim>\<open>calculateDiscount\<close> returns the product of the subtotal and the discount
  of the entry, not rounded to cents; a discount of 0.10 on the subtotal 1000 is 100.
\<close>

theorem validatePromoCode_none_iff:
  "(validatePromoCode_in catalogue now c = None \<longleftrightarrow>
      (catalogue c = None
       \<or> (\<exists>p. catalogue c = Some p
            \<and> (\<not> isActive p
               \<or> (\<exists>s. startDate p = Some s \<and> now < s)
               \<or> (\<exists>e. endDate p = Some e \<and> e < now)
               \<or> (\<exists>m u. maxUses p = Some m \<and> currentUses p = Some u \<and> js_ge u m)))))
   \<and> (validatePromoCode_in catalogue now c \<noteq> None \<longrightarrow>
        validatePromoCode_in catalogue now c = catalogue c)
   \<and> validatePromoCode now c = validatePromoCode_in PROMO_CODES now c
   \<and> validatePromoCode now c = PROMO_CODES c
   \<and> calculateDiscount s p = js_mul s (discount p)
   \<and> (discount p = fl (10 / 100) \<longrightarrow> calculateDiscount (Num 1000) p = Num 100)"
proof -
  have 1: "validatePromoCode_in catalogue now c = None \<longleftrightarrow>
      (catalogue c = None
       \<or> (\<exists>p. catalogue c = Some p
            \<and> (\<not> isActive p
               \<or> (\<exists>s. startDate p = Some s \<and> now < s)
               \<or> (\<exists>e. endDate p = Some e \<and> e < now)
               \<or> (\<exists>m u. maxUses p = Some m \<and> currentUses p = Some u \<and> js_ge u m))))"
    by (auto simp: validatePromoCode_in_def split: option.splits)
  have 2: "validatePromoCode_in catalogue now c \<noteq> None \<longrightarrow>
        validatePromoCode_in catalogue now c = catalogue c"
    by (auto simp: validatePromoCode_in_def split: option.splits if_splits)
  have 3: "validatePromoCode now c = validatePromoCode_in PROMO_CODES now c"
    by (simp add: validatePromoCode_def)
  have 4: "validatePromoCode now c = PROMO_CODES c" by (rule validatePromoCode_static)
  have 5: "calculateDiscount s p = js_mul s (discount p)" by (simp add: calculateDiscount_def)
  have "js_mul (Num 1000) (fl (10 / 100)) = Num 100" by code_simp
  then have 6: "discount p = fl (10 / 100) \<longrightarrow> calculateDiscount (Num 1000) p = Num 100"
    by (simp add: calculateDiscount_def)
  show ?thesis by (intro conjI 1 2 3 4 5 6)
qed

theorem validatePromoCode_none_iff_witness:
  "validatePromoCode 0 ''WELCOME10'' = Some (promo ''WELCOME10'' ''10% off your order'' (fl (10 / 100)))
   \<and> validatePromoCode 0 ''NOPE'' = None
   \<and> calculateDiscount (Num 1000) (promo ''WELCOME10'' ''10% off your order'' (fl (10 / 100))) = Num 100
   \<and> validatePromoCode_in
        [''OLD'' \<mapsto> (promo ''OLD'' ''expired'' (fl (10 / 100)))\<lparr>endDate := Some 5\<rparr>] 9 ''OLD'' = None
   \<and> validatePromoCode_in
        [''OLD'' \<mapsto> (promo ''OLD'' ''expired'' (fl (10 / 100)))\<lparr>endDate := Some 5\<rparr>] 5 ''OLD''
       = Some ((promo ''OLD'' ''expired'' (fl (10 / 100)))\<lparr>endDate := Some 5\<rparr>)"
proof -
  let ?p = "promo ''WELCOME10'' ''10% off your order'' (fl (10 / 100))"
  let ?old = "(promo ''OLD'' ''expired'' (fl (10 / 100)))\<lparr>endDate := Some 5\<rparr>"
  have a: "PROMO_CODES ''WELCOME10'' = Some ?p" by (simp add: PROMO_CODES_def)
  have b: "PROMO_CODES ''NOPE'' = None" by (simp add: PROMO_CODES_def)
  have d: "discount ?p = fl (10 / 100)" by (simp add: promo_def)
  have e: "endDate ?old = Some 5" "isActive ?old" "startDate ?old = None" "maxUses ?old = None"
    by (simp_all add: promo_def)
  note w = validatePromoCode_none_iff [of PROMO_CODES 0 "''WELCOME10''" "Num 1000" ?p]
  note n = validatePromoCode_none_iff [of PROMO_CODES 0 "''NOPE''" "Num 1000" ?p]
  note x = validatePromoCode_none_iff [of "[''OLD'' \<mapsto> ?old]" 9 "''OLD''" "Num 1000" ?p]
  note y = validatePromoCode_none_iff [of "[''OLD'' \<mapsto> ?old]" 5 "''OLD''" "Num 1000" ?p]
  from w have "validatePromoCode 0 ''WELCOME10'' = PROMO_CODES ''WELCOME10''" by blast
  then have 1: "validatePromoCode 0 ''WELCOME10'' = Some ?p" using a by simp
  from n have "validatePromoCode 0 ''NOPE'' = PROMO_CODES ''NOPE''" by blast
  then have 2: "validatePromoCode 0 ''NOPE'' = None" using b by simp
  from w have "discount ?p = fl (10 / 100) \<longrightarrow> calculateDiscount (Num 1000) ?p = Num 100" by blast
  then have 3: "calculateDiscount (Num 1000) ?p = Num 100" using d by simp
  have 4: "validatePromoCode_in [''OLD'' \<mapsto> ?old] 9 ''OLD'' = None"
    using x e by simp
  have "validatePromoCode_in [''OLD'' \<mapsto> ?old] 5 ''OLD'' \<noteq> None"
    using y e by simp
  moreover from y have "validatePromoCode_in [''OLD'' \<mapsto> ?old] 5 ''OLD'' \<noteq> None \<longrightarrow>
      validatePromoCode_in [''OLD'' \<mapsto> ?old] 5 ''OLD'' = [''OLD'' \<mapsto> ?old] ''OLD''"
    by blast
  ultimately have 5: "validatePromoCode_in [''OLD'' \<mapsto> ?old] 5 ''OLD'' = Some ?old" by simp
  show ?thesis by (intro conjI 1 2 3 4 5)
qed

section \<open>Checkout: the steps of the wallet path\<close>

text \<open>
  What \<^verbatim>\<open>processWalletPayment\<close> has done when it returns, for each step that can fail first,
  and what \<^verbatim>\<open>handleOrder\<close> does on either side of the balance check.
\<close>

lemma issue_simps [simp]:
  "calls (issue c w) = calls w @ [c]"
  "orders (issue c w) = orders w"
  "transactions (issue c w) = transactions w"
  "profiles_wallet_balance (issue c w) = profiles_wallet_balance w"
  "cart (issue c w) = cart w"
  "user (issue c w) = user w"
  "profile (issue c w) = profile w"
  "items (issue c w) = items w"
  "appliedPromo (issue c w) = appliedPromo w"
  "deliveryAddress (issue c w) = deliveryAddress w"
  "alerts (issue c w) = alerts w"
  "loading (issue c w) = loading w"
  by (simp_all add: issue_def)

lemma alert_show_simps [simp]:
  "calls (alert_show t m w) = calls w"
  "orders (alert_show t m w) = orders w"
  "transactions (alert_show t m w) = transactions w"
  "profiles_wallet_balance (alert_show t m w) = profiles_wallet_balance w"
  "cart (alert_show t m w) = cart w"
  "alerts (alert_show t m w) = alerts w @ [Alert t m]"
  "loading (alert_show t m w) = loading w"
  "showPaystack (alert_show t m w) = showPaystack w"
  "showPayPal (alert_show t m w) = showPayPal w"
  by (simp_all add: alert_show_def)

lemma walletOrder_issue [simp]: "walletOrder (issue c w) u t d = walletOrder w u t d"
  by (simp add: walletOrder_def)

lemma processWalletPayment_steps_aux:
  fixes l :: lib and r :: remote and t :: OrderTotals and d :: number and w :: world
  assumes u: "user w = Some u" and p: "profile w = Some p"
  defines "its \<equiv> map orderItem (items w)"
    and "order \<equiv> walletOrder w u t d"
    and "bal \<equiv> js_sub (wallet_balance p) (total t)"
    and "w' \<equiv> fst (processWalletPayment l r t d w)"
    and "exn \<equiv> snd (processWalletPayment l r t d w)"
  shows
    "validate_stock_availability r its = Some msg \<Longrightarrow>
       calls w' = calls w @ [ValidateStock its] \<and> orders w' = orders w
       \<and> profiles_wallet_balance w' = profiles_wallet_balance w
       \<and> transactions w' = transactions w \<and> cart w' = cart w
       \<and> exn = Some (''Stock validation failed: '' @ msg)"
    "validate_stock_availability r its = None \<Longrightarrow> insert_order r order = Inl err \<Longrightarrow>
       calls w' = calls w @ [ValidateStock its, InsertOrder order] \<and> orders w' = orders w
       \<and> profiles_wallet_balance w' = profiles_wallet_balance w
       \<and> transactions w' = transactions w \<and> cart w' = cart w \<and> exn = Some err"
    "validate_stock_availability r its = None \<Longrightarrow> insert_order r order = Inr oid \<Longrightarrow>
     update_wallet r bal = Some err \<Longrightarrow>
       calls w' = calls w @ [ValidateStock its, InsertOrder order, UpdateWallet bal]
       \<and> orders w' = orders w @ [(oid, order)]
       \<and> profiles_wallet_balance w' = profiles_wallet_balance w
       \<and> transactions w' = transactions w \<and> cart w' = cart w \<and> exn = Some err"
    "validate_stock_availability r its = None \<Longrightarrow> insert_order r order = Inr oid \<Longrightarrow>
     update_wallet r bal = None \<Longrightarrow>
     insert_transaction r (walletTransaction l w u t oid) = Some err \<Longrightarrow>
       calls w' = calls w @ [ValidateStock its, InsertOrder order, UpdateWallet bal,
                            InsertTransaction (walletTransaction l w u t oid)]
       \<and> orders w' = orders w @ [(oid, order)]
       \<and> profiles_wallet_balance w' = bal
       \<and> transactions w' = transactions w \<and> cart w' = cart w \<and> exn = Some err"
    "validate_stock_availability r its = None \<Longrightarrow> insert_order r order = Inr oid \<Longrightarrow>
     update_wallet r bal = None \<Longrightarrow>
     insert_transaction r (walletTransaction l w u t oid) = None \<Longrightarrow>
     refreshProfile r = Some err \<Longrightarrow>
       calls w' = calls w @ [ValidateStock its, InsertOrder order, UpdateWallet bal,
                            InsertTransaction (walletTransaction l w u t oid), RefreshProfile]
       \<and> orders w' = orders w @ [(oid, order)]
       \<and> profiles_wallet_balance w' = bal
       \<and> transactions w' = transactions w @ [walletTransaction l w u t oid]
       \<and> cart w' = cart w \<and> exn = Some err"
    "validate_stock_availability r its = None \<Longrightarrow> insert_order r order = Inr oid \<Longrightarrow>
     update_wallet r bal = None \<Longrightarrow>
     insert_transaction r (walletTransaction l w u t oid) = None \<Longrightarrow>
     refreshProfile r = None \<Longrightarrow> clearCart r = Some err \<Longrightarrow>
       calls w' = calls w @ [ValidateStock its, InsertOrder order, UpdateWallet bal,
                            InsertTransaction (walletTransaction l w u t oid), RefreshProfile,
                            ClearCart]
       \<and> orders w' = orders w @ [(oid, order)]
       \<and> profiles_wallet_balance w' = bal
       \<and> transactions w' = transactions w @ [walletTransaction l w u t oid]
       \<and> cart w' = cart w \<and> exn = Some err"
    "validate_stock_availability r its = None \<Longrightarrow> insert_order r order = Inr oid \<Longrightarrow>
     update_wallet r bal = None \<Longrightarrow>
     insert_transaction r (walletTransaction l w u t oid) = None \<Longrightarrow>
     refreshProfile r = None \<Longrightarrow> clearCart r = None \<Longrightarrow>
       calls w' = calls w @ [ValidateStock its, InsertOrder order, UpdateWallet bal,
                            InsertTransaction (walletTransaction l w u t oid), RefreshProfile,
                            ClearCart]
       \<and> orders w' = orders w @ [(oid, order)]
       \<and> profiles_wallet_balance w' = bal
       \<and> transactions w' = transactions w @ [walletTransaction l w u t oid]
       \<and> cart w' = [] \<and> exn = None"
  unfolding its_def order_def bal_def w'_def exn_def
  using u p
  by (simp_all add: processWalletPayment_def Let_def walletTransaction_def getTotalItems_def)


lemma loading_irrelevant [simp]:
  "orderTotals l (w\<lparr>loading := b\<rparr>) = orderTotals l w"
  "discountNGN (w\<lparr>loading := b\<rparr>) = discountNGN w"
  "userCurrency (w\<lparr>loading := b\<rparr>) = userCurrency w"
  by (simp_all add: orderTotals_def discountedSubtotalNGN_def discountNGN_def
      getSubtotalInNGN_def userCurrency_def cong: option.case_cong)




lemma example_total: "total (orderTotals example_lib (example_world b)) = Num 4520"
  by code_simp

lemma ex_a: "js_sub (Num 5000) (Num 4520) = Num 480" "js_sub (Num 4520) (Num 4520) = Num 0"
  by code_simp+

lemma example_world_simps:
  "user (example_world b) = Some \<lparr>uid = ''user-1''\<rparr>"
  "profile (example_world b) = Some \<lparr>wallet_balance = b, preferred_currency = None\<rparr>"
  "trim (deliveryAddress (example_world b)) \<noteq> []"
  "orders (example_world b) = []"
  "transactions (example_world b) = []"
  "calls (example_world b) = []"
  "cart (example_world b) = [example_item]"
  "profiles_wallet_balance (example_world b) = b"
  "items (example_world b) = [example_item]"
  by (simp_all add: example_world_def trim_def is_space_def lit_def)

lemma handleOrder_external:
  assumes "m \<noteq> wallet"
  shows "orders (handleOrder l r m w) = orders w
   \<and> transactions (handleOrder l r m w) = transactions w
   \<and> calls (handleOrder l r m w) = calls w
   \<and> profiles_wallet_balance (handleOrder l r m w) = profiles_wallet_balance w
   \<and> cart (handleOrder l r m w) = cart w"
  using assms
  by (simp add: handleOrder_def Let_def alert_show_def split: option.split)

lemma example_remote_simps:
  "validate_stock_availability remote_ok = (\<lambda>its. None)"
  "insert_order remote_ok = (\<lambda>order. Inr ''order-1'')"
  "update_wallet remote_ok = (\<lambda>balance. None)"
  "insert_transaction remote_ok = (\<lambda>tx. None)"
  "refreshProfile remote_ok = None"
  "clearCart remote_ok = None"
  "validate_stock_availability remote_wallet_down = (\<lambda>its. None)"
  "insert_order remote_wallet_down = (\<lambda>order. Inr ''order-1'')"
  "update_wallet remote_wallet_down = (\<lambda>balance. Some ''wallet update failed'')"
  by (simp_all add: remote_ok_def remote_wallet_down_def)

lemma loading_irrelevant_wallet [simp]:
  "walletOrder (w\<lparr>loading := b\<rparr>) u t d = walletOrder w u t d"
  "walletTransaction l (w\<lparr>loading := b\<rparr>) u t oid = walletTransaction l w u t oid"
  by (simp_all add: walletOrder_def walletTransaction_def getTotalItems_def)



lemma handleOrder_external_ui:
  assumes "trim (deliveryAddress w) \<noteq> []" and "user w = Some u" and "profile w = Some p"
    and "userCurrency w = ''NGN''"
  shows "showPaystack (handleOrder l r card w)" and "orderData (handleOrder l r card w) \<noteq> None"
  using assms by (simp_all add: handleOrder_def Let_def)

section \<open>The claims on checkout\<close>

text \<open>
  C5. In the wallet path \<^verbatim>\<open>processWalletPayment\<close> issues its remote calls one after the
  other, in this order: the validation of the stock, the insertion of the order with
  \<^verbatim>\<open>payment_status\<close> \<^verbatim>\<open>paid\<close> and the total of the order, the update of the wallet to the
  balance less the total, the insertion of the transaction, the refresh of the profile
  and the clearing of the cart. The first call that fails is the last call issued, and
  its error is thrown: the order is inserted only after the stock is validated, the
  wallet is debited only once the order exists, and the cart is cleared only when every
  call before succeeded. What the calls before the failure have written stays: the
  order is not removed when the update of the wallet fails, nor the debit undone when
  the transaction cannot be inserted.
\<close>

theorem processWalletPayment_sequence:
  fixes l :: lib and r :: remote and t :: OrderTotals and d :: number and w :: world
  assumes u: "user w = Some u" and p: "profile w = Some p"
  defines "its \<equiv> map orderItem (items w)"
    and "order \<equiv> walletOrder w u t d"
    and "bal \<equiv> js_sub (wallet_balance p) (total t)"
    and "w' \<equiv> fst (processWalletPayment l r t d w)"
    and "exn \<equiv> snd (processWalletPayment l r t d w)"
  shows
    "payment_status order = ''paid'' \<and> order_total order = total t
     \<and> (\<forall>msg. validate_stock_availability r its = Some msg \<longrightarrow>
           calls w' = calls w @ [ValidateStock its] \<and> orders w' = orders w
           \<and> profiles_wallet_balance w' = profiles_wallet_balance w
           \<and> transactions w' = transactions w \<and> cart w' = cart w
           \<and> exn = Some (''Stock validation failed: '' @ msg))
     \<and> (\<forall>err. validate_stock_availability r its = None \<and> insert_order r order = Inl err \<longrightarrow>
           calls w' = calls w @ [ValidateStock its, InsertOrder order] \<and> orders w' = orders w
           \<and> profiles_wallet_balance w' = profiles_wallet_balance w
           \<and> transactions w' = transactions w \<and> cart w' = cart w \<and> exn = Some err)
     \<and> (\<forall>oid err. validate_stock_availability r its = None \<and> insert_order r order = Inr oid
           \<and> update_wallet r bal = Some err \<longrightarrow>
           calls w' = calls w @ [ValidateStock its, InsertOrder order, UpdateWallet bal]
           \<and> orders w' = orders w @ [(oid, order)]
           \<and> profiles_wallet_balance w' = profiles_wallet_balance w
           \<and> transactions w' = transactions w \<and> cart w' = cart w \<and> exn = Some err)
     \<and> (\<forall>oid err. validate_stock_availability r its = None \<and> insert_order r order = Inr oid
           \<and> update_wallet r bal = None
           \<and> insert_transaction r (walletTransaction l w u t oid) = Some err \<longrightarrow>
           calls w' = calls w @ [ValidateStock its, InsertOrder order, UpdateWallet bal,
                                InsertTransaction (walletTransaction l w u t oid)]
           \<and> orders w' = orders w @ [(oid, order)]
           \<and> profiles_wallet_balance w' = bal
           \<and> transactions w' = transactions w \<and> cart w' = cart w \<and> exn = Some err)
     \<and> (\<forall>oid err. validate_stock_availability r its = None \<and> insert_order r order = Inr oid
           \<and> update_wallet r bal = None
           \<and> insert_transaction r (walletTransaction l w u t oid) = None
           \<and> refreshProfile r = Some err \<longrightarrow>
           calls w' = calls w @ [ValidateStock its, InsertOrder order, UpdateWallet bal,
                                InsertTransaction (walletTransaction l w u t oid), RefreshProfile]
           \<and> orders w' = orders w @ [(oid, order)]
           \<and> profiles_wallet_balance w' = bal
           \<and> transactions w' = transactions w @ [walletTransaction l w u t oid]
           \<and> cart w' = cart w \<and> exn = Some err)
     \<and> (\<forall>oid err. validate_stock_availability r its = None \<and> insert_order r order = Inr oid
           \<and> update_wallet r bal = None
           \<and> insert_transaction r (walletTransaction l w u t oid) = None
           \<and> refreshProfile r = None \<and> clearCart r = Some err \<longrightarrow>
           calls w' = calls w @ [ValidateStock its, InsertOrder order, UpdateWallet bal,
                                InsertTransaction (walletTransaction l w u t oid), RefreshProfile,
                                ClearCart]
           \<and> orders w' = orders w @ [(oid, order)]
           \<and> profiles_wallet_balance w' = bal
           \<and> transactions w' = transactions w @ [walletTransaction l w u t oid]
           \<and> cart w' = cart w \<and> exn = Some err)
     \<and> (\<forall>oid. validate_stock_availability r its = None \<and> insert_order r order = Inr oid
           \<and> update_wallet r bal = None
           \<and> insert_transaction r (walletTransaction l w u t oid) = None
           \<and> refreshProfile r = None \<and> clearCart r = None \<longrightarrow>
           calls w' = calls w @ [ValidateStock its, InsertOrder order, UpdateWallet bal,
                                InsertTransaction (walletTransaction l w u t oid), RefreshProfile,
                                ClearCart]
           \<and> orders w' = orders w @ [(oid, order)]
           \<and> profiles_wallet_balance w' = bal
           \<and> transactions w' = transactions w @ [walletTransaction l w u t oid]
           \<and> cart w' = [] \<and> exn = None)"
proof -
  note aux = processWalletPayment_steps_aux [OF u p]
  have c0: "payment_status order = ''paid'' \<and> order_total order = total t"
    by (simp add: order_def walletOrder_def)
  have c1: "(\<forall>msg. validate_stock_availability r its = Some msg \<longrightarrow>
           calls w' = calls w @ [ValidateStock its] \<and> orders w' = orders w
           \<and> profiles_wallet_balance w' = profiles_wallet_balance w
           \<and> transactions w' = transactions w \<and> cart w' = cart w
           \<and> exn = Some (''Stock validation failed: '' @ msg))"
    unfolding its_def order_def bal_def w'_def exn_def using aux(1) by blast
  have c2: "(\<forall>err. validate_stock_availability r its = None \<and> insert_order r order = Inl err \<longrightarrow>
           calls w' = calls w @ [ValidateStock its, InsertOrder order] \<and> orders w' = orders w
           \<and> profiles_wallet_balance w' = profiles_wallet_balance w
           \<and> transactions w' = transactions w \<and> cart w' = cart w \<and> exn = Some err)"
    unfolding its_def order_def bal_def w'_def exn_def using aux(2) by blast
  have c3: "(\<forall>oid err. validate_stock_availability r its = None \<and> insert_order r order = Inr oid
           \<and> update_wallet r bal = Some err \<longrightarrow>
           calls w' = calls w @ [ValidateStock its, InsertOrder order, UpdateWallet bal]
           \<and> orders w' = orders w @ [(oid, order)]
           \<and> profiles_wallet_balance w' = profiles_wallet_balance w
           \<and> transactions w' = transactions w \<and> cart w' = cart w \<and> exn = Some err)"
    unfolding its_def order_def bal_def w'_def exn_def using aux(3) by blast
  have c4: "(\<forall>oid err. validate_stock_availability r its = None \<and> insert_order r order = Inr oid
           \<and> update_wallet r bal = None
           \<and> insert_transaction r (walletTransaction l w u t oid) = Some err \<longrightarrow>
           calls w' = calls w @ [ValidateStock its, InsertOrder order, UpdateWallet bal,
                                InsertTransaction (walletTransaction l w u t oid)]
           \<and> orders w' = orders w @ [(oid, order)]
           \<and> profiles_wallet_balance w' = bal
           \<and> transactions w' = transactions w \<and> cart w' = cart w \<and> exn = Some err)"
    unfolding its_def order_def bal_def w'_def exn_def using aux(4) by blast
  have c5: "(\<forall>oid err. validate_stock_availability r its = None \<and> insert_order r order = Inr oid
           \<and> update_wallet r bal = None
           \<and> insert_transaction r (walletTransaction l w u t oid) = None
           \<and> refreshProfile r = Some err \<longrightarrow>
           calls w' = calls w @ [ValidateStock its, InsertOrder order, UpdateWallet bal,
                                InsertTransaction (walletTransaction l w u t oid), RefreshProfile]
           \<and> orders w' = orders w @ [(oid, order)]
           \<and> profiles_wallet_balance w' = bal
           \<and> transactions w' = transactions w @ [walletTransaction l w u t oid]
           \<and> cart w' = cart w \<and> exn = Some err)"
    unfolding its_def order_def bal_def w'_def exn_def using aux(5) by blast
  have c6: "(\<forall>oid err. validate_stock_availability r its = None \<and> insert_order r order = Inr oid
           \<and> update_wallet r bal = None
           \<and> insert_transaction r (walletTransaction l w u t oid) = None
           \<and> refreshProfile r = None \<and> clearCart r = Some err \<longrightarrow>
           calls w' = calls w @ [ValidateStock its, InsertOrder order, UpdateWallet bal,
                                InsertTransaction (walletTransaction l w u t oid), RefreshProfile,
                                ClearCart]
           \<and> orders w' = orders w @ [(oid, order)]
           \<and> profiles_wallet_balance w' = bal
           \<and> transactions w' = transactions w @ [walletTransaction l w u t oid]
           \<and> cart w' = cart w \<and> exn = Some err)"
    unfolding its_def order_def bal_def w'_def exn_def using aux(6) by blast
  have c7: "(\<forall>oid. validate_stock_availability r its = None \<and> insert_order r order = Inr oid
           \<and> update_wallet r bal = None
           \<and> insert_transaction r (walletTransaction l w u t oid) = None
           \<and> refreshProfile r = None \<and> clearCart r = None \<longrightarrow>
           calls w' = calls w @ [ValidateStock its, InsertOrder order, UpdateWallet bal,
                                InsertTransaction (walletTransaction l w u t oid), RefreshProfile,
                                ClearCart]
           \<and> orders w' = orders w @ [(oid, order)]
           \<and> profiles_wallet_balance w' = bal
           \<and> transactions w' = transactions w @ [walletTransaction l w u t oid]
           \<and> cart w' = [] \<and> exn = None)"
    unfolding its_def order_def bal_def w'_def exn_def using aux(7) by blast
  show ?thesis by (intro conjI c0 [THEN conjunct1] c0 [THEN conjunct2] c1 c2 c3 c4 c5 c6 c7)
qed

theorem processWalletPayment_sequence_witness:
  "user (example_world (Num 5000)) = Some \<lparr>uid = ''user-1''\<rparr>
   \<and> profile (example_world (Num 5000)) = Some \<lparr>wallet_balance = Num 5000, preferred_currency = None\<rparr>
   \<and> calls (fst (processWalletPayment example_lib remote_wallet_down
          (orderTotals example_lib (example_world (Num 5000))) (Num 0) (example_world (Num 5000))))
       = [ValidateStock [orderItem example_item],
          InsertOrder (walletOrder (example_world (Num 5000)) \<lparr>uid = ''user-1''\<rparr>
                         (orderTotals example_lib (example_world (Num 5000))) (Num 0)),
          UpdateWallet (Num 480)]
   \<and> map fst (orders (fst (processWalletPayment example_lib remote_wallet_down
          (orderTotals example_lib (example_world (Num 5000))) (Num 0) (example_world (Num 5000))))) = [''order-1'']
   \<and> profiles_wallet_balance (fst (processWalletPayment example_lib remote_wallet_down
          (orderTotals example_lib (example_world (Num 5000))) (Num 0) (example_world (Num 5000)))) = Num 5000
   \<and> transactions (fst (processWalletPayment example_lib remote_wallet_down
          (orderTotals example_lib (example_world (Num 5000))) (Num 0) (example_world (Num 5000)))) = []
   \<and> cart (fst (processWalletPayment example_lib remote_wallet_down
          (orderTotals example_lib (example_world (Num 5000))) (Num 0) (example_world (Num 5000)))) = [example_item]
   \<and> snd (processWalletPayment example_lib remote_wallet_down
          (orderTotals example_lib (example_world (Num 5000))) (Num 0) (example_world (Num 5000))) = Some ''wallet update failed''
   \<and> length (calls (fst (processWalletPayment example_lib remote_ok
          (orderTotals example_lib (example_world (Num 5000))) (Num 0) (example_world (Num 5000))))) = 6
   \<and> profiles_wallet_balance (fst (processWalletPayment example_lib remote_ok
          (orderTotals example_lib (example_world (Num 5000))) (Num 0) (example_world (Num 5000)))) = Num 480
   \<and> cart (fst (processWalletPayment example_lib remote_ok
          (orderTotals example_lib (example_world (Num 5000))) (Num 0) (example_world (Num 5000)))) = []
   \<and> snd (processWalletPayment example_lib remote_ok
          (orderTotals example_lib (example_world (Num 5000))) (Num 0) (example_world (Num 5000))) = None"
proof -
  let ?w = "example_world (Num 5000)"
  let ?u = "\<lparr>uid = ''user-1''\<rparr>"
  let ?p = "\<lparr>wallet_balance = Num 5000, preferred_currency = None\<rparr>"
  have u: "user ?w = Some ?u" and p: "profile ?w = Some ?p"
    by (simp_all add: example_world_simps)
  have b: "js_sub (Num 5000) (total (orderTotals example_lib ?w)) = Num 480"
    by (simp add: example_total ex_a)
  note down = processWalletPayment_sequence
    [OF u p, where r = remote_wallet_down and t = "orderTotals example_lib ?w" and d = "Num 0" and l = example_lib]
  note ok = processWalletPayment_sequence
    [OF u p, where r = remote_ok and t = "orderTotals example_lib ?w" and d = "Num 0" and l = example_lib]
  show ?thesis
    using u p down ok
    by (simp add: b example_remote_simps example_world_simps)
qed




text \<open>
  C9. A cancel from either payment processor closes the payment modal, clears the loading
  flag and shows the notice \<^verbatim>\<open>Payment Cancelled\<close>; it issues no remote call and leaves the
  orders, the transactions, the wallet and the cart as they were. Nor has \<^verbatim>\<open>handleOrder\<close>
  written anything before, for a payment by card or by PayPal: after the attempt and its
  cancellation there is no new order and no new transaction.
\<close>

theorem cancel_is_terminal:
  "orders (handlePaystackCancel w) = orders w
   \<and> transactions (handlePaystackCancel w) = transactions w
   \<and> calls (handlePaystackCancel w) = calls w
   \<and> profiles_wallet_balance (handlePaystackCancel w) = profiles_wallet_balance w
   \<and> cart (handlePaystackCancel w) = cart w
   \<and> \<not> loading (handlePaystackCancel w)
   \<and> \<not> showPaystack (handlePaystackCancel w)
   \<and> alerts (handlePaystackCancel w) =
        alerts w @ [Alert ''Payment Cancelled'' ''Your payment was cancelled'']
   \<and> orders (handlePayPalCancel w) = orders w
   \<and> transactions (handlePayPalCancel w) = transactions w
   \<and> calls (handlePayPalCancel w) = calls w
   \<and> profiles_wallet_balance (handlePayPalCancel w) = profiles_wallet_balance w
   \<and> cart (handlePayPalCancel w) = cart w
   \<and> \<not> loading (handlePayPalCancel w)
   \<and> \<not> showPayPal (handlePayPalCancel w)
   \<and> alerts (handlePayPalCancel w) =
        alerts w @ [Alert ''Payment Cancelled'' ''Your payment was cancelled'']
   \<and> (m \<noteq> wallet \<longrightarrow>
        orders (handlePaystackCancel (handleOrder l r m w)) = orders w
        \<and> transactions (handlePaystackCancel (handleOrder l r m w)) = transactions w
        \<and> calls (handlePaystackCancel (handleOrder l r m w)) = calls w
        \<and> orders (handlePayPalCancel (handleOrder l r m w)) = orders w
        \<and> transactions (handlePayPalCancel (handleOrder l r m w)) = transactions w
        \<and> calls (handlePayPalCancel (handleOrder l r m w)) = calls w)"
proof -
  have 1: "orders (handlePaystackCancel w) = orders w
   \<and> transactions (handlePaystackCancel w) = transactions w
   \<and> calls (handlePaystackCancel w) = calls w
   \<and> profiles_wallet_balance (handlePaystackCancel w) = profiles_wallet_balance w
   \<and> cart (handlePaystackCancel w) = cart w
   \<and> \<not> loading (handlePaystackCancel w)
   \<and> \<not> showPaystack (handlePaystackCancel w)
   \<and> alerts (handlePaystackCancel w) =
        alerts w @ [Alert ''Payment Cancelled'' ''Your payment was cancelled'']" for w
    by (simp add: handlePaystackCancel_def alert_show_def)
  have 2: "orders (handlePayPalCancel w) = orders w
   \<and> transactions (handlePayPalCancel w) = transactions w
   \<and> calls (handlePayPalCancel w) = calls w
   \<and> profiles_wallet_balance (handlePayPalCancel w) = profiles_wallet_balance w
   \<and> cart (handlePayPalCancel w) = cart w
   \<and> \<not> loading (handlePayPalCancel w)
   \<and> \<not> showPayPal (handlePayPalCancel w)
   \<and> alerts (handlePayPalCancel w) =
        alerts w @ [Alert ''Payment Cancelled'' ''Your payment was cancelled'']" for w
    by (simp add: handlePayPalCancel_def alert_show_def)
  have 3: "m \<noteq> wallet \<longrightarrow>
        orders (handlePaystackCancel (handleOrder l r m w)) = orders w
        \<and> transactions (handlePaystackCancel (handleOrder l r m w)) = transactions w
        \<and> calls (handlePaystackCancel (handleOrder l r m w)) = calls w
        \<and> orders (handlePayPalCancel (handleOrder l r m w)) = orders w
        \<and> transactions (handlePayPalCancel (handleOrder l r m w)) = transactions w
        \<and> calls (handlePayPalCancel (handleOrder l r m w)) = calls w"
    using 1 [of "handleOrder l r m w"] 2 [of "handleOrder l r m w"] handleOrder_external [of m l r w]
    by simp
  show ?thesis using 1 [of w] 2 [of w] 3 by blast
qed

theorem cancel_is_terminal_witness:
  "card \<noteq> wallet
   \<and> showPaystack (handleOrder example_lib remote_ok card (example_world (Num 0)))
   \<and> orderData (handleOrder example_lib remote_ok card (example_world (Num 0))) \<noteq> None
   \<and> orders (handlePaystackCancel (handleOrder example_lib remote_ok card (example_world (Num 0)))) = []
   \<and> transactions (handlePaystackCancel (handleOrder example_lib remote_ok card (example_world (Num 0)))) = []
   \<and> calls (handlePaystackCancel (handleOrder example_lib remote_ok card (example_world (Num 0)))) = []
   \<and> \<not> loading (handlePaystackCancel (handleOrder example_lib remote_ok card (example_world (Num 0))))
   \<and> \<not> showPaystack (handlePaystackCancel (handleOrder example_lib remote_ok card (example_world (Num 0))))"
proof -
  let ?w = "example_world (Num 0)"
  have h: "card \<noteq> wallet" by simp
  have cur: "userCurrency ?w = ''NGN''" by (simp add: userCurrency_def example_world_simps)
  have ui: "showPaystack (handleOrder example_lib remote_ok card ?w)"
    "orderData (handleOrder example_lib remote_ok card ?w) \<noteq> None"
    using handleOrder_external_ui [OF example_world_simps(3) example_world_simps(1)
        example_world_simps(2) cur]
    by simp_all
  show ?thesis
    using h ui
      cancel_is_terminal [of ?w card example_lib remote_ok]
      cancel_is_terminal [of "handleOrder example_lib remote_ok card ?w" card example_lib remote_ok]
    by (simp add: example_world_simps)
qed

end
